theory Spec2Isabelle
  imports Main
begin

section \<open>The OBJ loader of geometry.cpp\<close>

text \<open>
  A shallow embedding of \<^verbatim>\<open>GeometryData::loadFromOBJFile\<close> and
  \<^verbatim>\<open>GeometryData::vertexCount\<close> (src/src/geometry.cpp, src/src/geometry.h).
  The loader reads the file through a \<^verbatim>\<open>std::ifstream\<close>; the stream operations it
  calls (\<^verbatim>\<open>get\<close>, \<^verbatim>\<open>unget\<close>, \<^verbatim>\<open>ws\<close>, \<^verbatim>\<open>operator>>\<close>
  on \<^verbatim>\<open>int\<close> and \<^verbatim>\<open>float\<close>, \<^verbatim>\<open>eof\<close>) are modelled after the C++11 library
  clauses, with the state bits they set, because the control flow of the loader is decided by them.
\<close>

subsection \<open>The input stream\<close>

text \<open>
  \<open>rest\<close>: the characters not yet extracted. \<open>pback\<close>: the character the last extraction
  consumed, which one \<^verbatim>\<open>unget()\<close> restores (the loader calls \<^verbatim>\<open>unget()\<close> only right
  after a \<^verbatim>\<open>get()\<close>). \<open>failbit\<close> stands for \<^verbatim>\<open>failbit\<close> or \<^verbatim>\<open>badbit\<close>: the loader
  observes them only together, through \<^verbatim>\<open>fail()\<close> and through the sentry's \<^verbatim>\<open>good()\<close>.
\<close>

record istream =
  rest :: string
  pback :: "char option"
  eofbit :: bool
  failbit :: bool

definition good :: "istream \<Rightarrow> bool" where
  "good s = (\<not> eofbit s \<and> \<not> failbit s)"

text \<open>\<^verbatim>\<open>isspace\<close> in the classic locale: space, \<^verbatim>\<open>\t \n \v \f \r\<close>.\<close>

definition isspace :: "char \<Rightarrow> bool" where
  "isspace c = (c = CHR '' '' \<or> c = CHR 0x09 \<or> c = CHR 0x0A \<or> c = CHR 0x0B
                \<or> c = CHR 0x0C \<or> c = CHR 0x0D)"

definition isdigit :: "char \<Rightarrow> bool" where
  "isdigit c = (c \<in> set ''0123456789'')"

text \<open>Consume the prefix \<open>p\<close> of the remaining characters.\<close>

definition consume :: "string \<Rightarrow> istream \<Rightarrow> istream" where
  "consume p s = s\<lparr>rest := drop (length p) (rest s),
                   pback := (if p = [] then pback s else Some (last p))\<rparr>"

text \<open>
  \<^verbatim>\<open>int get()\<close>: an unformatted input function. Its sentry sets \<^verbatim>\<open>failbit\<close> when the
  stream is not good; at the end of the input it sets \<^verbatim>\<open>eofbit | failbit\<close>. The result
  \<open>None\<close> is \<^verbatim>\<open>EOF\<close>; the loader only compares the result with ASCII characters, which
  \<^verbatim>\<open>(char)EOF\<close> is none of.
\<close>

definition get :: "istream \<Rightarrow> char option \<times> istream" where
  "get s =
     (if \<not> good s then (None, s\<lparr>failbit := True\<rparr>)
      else case rest s of
             [] \<Rightarrow> (None, s\<lparr>eofbit := True, failbit := True\<rparr>)
           | c # cs \<Rightarrow> (Some c, s\<lparr>rest := cs, pback := Some c\<rparr>))"

text \<open>
  \<^verbatim>\<open>unget()\<close> (C++11): clears \<^verbatim>\<open>eofbit\<close> first, then behaves as an unformatted input
  function: with the stream not good it sets \<^verbatim>\<open>failbit\<close>; with nothing to put back it sets
  \<^verbatim>\<open>badbit\<close>.
\<close>

definition unget :: "istream \<Rightarrow> istream" where
  "unget s =
     (let s1 = s\<lparr>eofbit := False\<rparr>
      in if failbit s1 then s1
         else case pback s1 of
                None \<Rightarrow> s1\<lparr>failbit := True\<rparr>
              | Some c \<Rightarrow> s1\<lparr>rest := c # rest s1, pback := None\<rparr>)"

text \<open>
  \<^verbatim>\<open>inStream >> ws\<close>: skips whitespace; reaching the end of the input sets \<^verbatim>\<open>eofbit\<close>
  and not \<^verbatim>\<open>failbit\<close>.
\<close>

definition ws :: "istream \<Rightarrow> istream" where
  "ws s =
     (if \<not> good s then s\<lparr>failbit := True\<rparr>
      else let s1 = consume (takeWhile isspace (rest s)) s
           in if rest s1 = [] then s1\<lparr>eofbit := True\<rparr> else s1)"

text \<open>
  The sentry of a formatted input function (\<^verbatim>\<open>skipws\<close> is set by default): it fails, setting
  \<^verbatim>\<open>failbit\<close>, when the stream is not good, and, setting \<^verbatim>\<open>eofbit | failbit\<close>, when only
  whitespace is left.
\<close>

definition sentry :: "istream \<Rightarrow> bool \<times> istream" where
  "sentry s =
     (if \<not> good s then (False, s\<lparr>failbit := True\<rparr>)
      else let s1 = consume (takeWhile isspace (rest s)) s
           in if rest s1 = [] then (False, s1\<lparr>eofbit := True, failbit := True\<rparr>)
              else (True, s1))"

definition INT_MAX :: int where "INT_MAX = 2147483647"
definition INT_MIN :: int where "INT_MIN = - 2147483648"

definition sign_prefix :: "string \<Rightarrow> string" where
  "sign_prefix cs = (case cs of [] \<Rightarrow> []
                     | c # _ \<Rightarrow> if c = CHR ''-'' \<or> c = CHR ''+'' then [c] else [])"

definition dec_value :: "string \<Rightarrow> int" where
  "dec_value ds = foldl (\<lambda>a c. 10 * a + (int (of_char c) - 48)) 0 ds"

text \<open>
  \<^verbatim>\<open>inStream >> n\<close> for \<^verbatim>\<open>int n\<close>, the variable holding \<open>v\<close> before. When the sentry
  fails the variable is left alone. Otherwise \<^verbatim>\<open>num_get\<close> takes an optional sign and the
  decimal digits that follow (reaching the end of the input there sets \<^verbatim>\<open>eofbit\<close>); with no
  digit it stores 0 and sets \<^verbatim>\<open>failbit\<close>; a value outside \<^verbatim>\<open>int\<close> is stored as the nearest
  bound, with \<^verbatim>\<open>failbit\<close>.
\<close>

definition read_int :: "int \<Rightarrow> istream \<Rightarrow> int \<times> istream" where
  "read_int v s =
     (case sentry s of
        (False, s1) \<Rightarrow> (v, s1)
      | (True, s1) \<Rightarrow>
          let sg = sign_prefix (rest s1);
              ds = takeWhile isdigit (drop (length sg) (rest s1));
              s2 = consume (sg @ ds) s1;
              s3 = (if rest s2 = [] then s2\<lparr>eofbit := True\<rparr> else s2);
              n = (if sg = ''-'' then - dec_value ds else dec_value ds)
          in if ds = [] then (0, s3\<lparr>failbit := True\<rparr>)
             else if n < INT_MIN then (INT_MIN, s3\<lparr>failbit := True\<rparr>)
             else if INT_MAX < n then (INT_MAX, s3\<lparr>failbit := True\<rparr>)
             else (n, s3))"

subsection \<open>Floats\<close>

text \<open>
  \<^verbatim>\<open>float\<close> is a type parameter \<open>'f\<close>; the operations the loader applies to floats are the
  fields of \<open>float_ops\<close>, so every theorem holds for IEEE arithmetic as for any other
  interpretation. \<open>strtof\<close> is the conversion \<^verbatim>\<open>num_get\<close> applies to the characters it has
  accumulated: the float, and whether the text is out of \<^verbatim>\<open>float\<close>'s range (then
  \<^verbatim>\<open>failbit\<close> is set). \<open>fzero\<close> is \<^verbatim>\<open>0.0f\<close>, stored when the text is no number;
  \<open>fone\<close> is \<^verbatim>\<open>1.0f\<close>. Each operation is a function of the values of its operands;
  nothing is assumed about what it computes.
\<close>

record 'f float_ops =
  strtof :: "string \<Rightarrow> 'f \<times> bool"
  fzero :: 'f
  fone :: 'f
  fadd :: "'f \<Rightarrow> 'f \<Rightarrow> 'f"
  fsub :: "'f \<Rightarrow> 'f \<Rightarrow> 'f"
  fmul :: "'f \<Rightarrow> 'f \<Rightarrow> 'f"
  fdiv :: "'f \<Rightarrow> 'f \<Rightarrow> 'f"
  fsqrt :: "'f \<Rightarrow> 'f"

text \<open>
  The characters \<^verbatim>\<open>num_get\<close> accumulates for a float: an optional sign, digits, at most one
  decimal point with digits, and, after a mantissa digit, \<^verbatim>\<open>e\<close> or \<^verbatim>\<open>E\<close> with an optional
  sign and digits. The pair is the mantissa part and the exponent part.
\<close>

definition float_chars :: "string \<Rightarrow> string \<times> string" where
  "float_chars cs =
     (let sg = sign_prefix cs;
          r1 = drop (length sg) cs;
          ip = takeWhile isdigit r1;
          r2 = dropWhile isdigit r1;
          fp = (case r2 of [] \<Rightarrow> []
                | c # r \<Rightarrow> if c = CHR ''.'' then c # takeWhile isdigit r else []);
          r3 = drop (length fp) r2;
          ex = (case r3 of [] \<Rightarrow> []
                | c # r \<Rightarrow>
                    if (c = CHR ''e'' \<or> c = CHR ''E'') \<and> (1 < length fp \<or> ip \<noteq> [])
                    then c # sign_prefix r @ takeWhile isdigit (drop (length (sign_prefix r)) r)
                    else [])
      in (sg @ ip @ fp, ex))"

text \<open>The accumulated text is a number when the mantissa and a present exponent have a digit.\<close>

definition float_text_ok :: "string \<times> string \<Rightarrow> bool" where
  "float_text_ok me = (case me of (m, ex) \<Rightarrow>
     filter isdigit m \<noteq> [] \<and> (ex = [] \<or> filter isdigit ex \<noteq> []))"

text \<open>
  \<^verbatim>\<open>inStream >> x\<close> for \<^verbatim>\<open>float x\<close>. The variable holds \<open>v\<close> before; \<open>None\<close> is a
  variable that was declared without an initialiser and not yet written.
\<close>

definition read_float :: "'f float_ops \<Rightarrow> 'f option \<Rightarrow> istream \<Rightarrow> 'f option \<times> istream" where
  "read_float F v s =
     (case sentry s of
        (False, s1) \<Rightarrow> (v, s1)
      | (True, s1) \<Rightarrow>
          let me = float_chars (rest s1);
              s2 = consume (fst me @ snd me) s1;
              s3 = (if rest s2 = [] then s2\<lparr>eofbit := True\<rparr> else s2)
          in if \<not> float_text_ok me then (Some (fzero F), s3\<lparr>failbit := True\<rparr>)
             else case strtof F (fst me @ snd me) of
                    (x, range_error) \<Rightarrow>
                      (Some x, if range_error then s3\<lparr>failbit := True\<rparr> else s3))"

subsection \<open>The data of geometry.h\<close>

text \<open>\<^verbatim>\<open>struct FaceData\<close>: three arrays of three \<^verbatim>\<open>int\<close>s, as lists of length 3.\<close>

record FaceData =
  vertexIndex :: "int list"
  texCoordIndex :: "int list"
  normalIndex :: "int list"

record 'f GeometryData =
  vertices :: "'f list"
  textureCoords :: "'f list"
  normals :: "'f list"
  tangents :: "'f list"
  bitangents :: "'f list"
  faces :: "FaceData list"

text \<open>
  A default-constructed \<^verbatim>\<open>GeometryData\<close>: every vector empty. The size of a vector is a
  natural number: the conversions between \<^verbatim>\<open>size_t\<close> and \<^verbatim>\<open>int\<close> at lines 198, 230, 231
  and 290 are taken as exact, as they are while a vector holds fewer than \<open>2^31\<close> elements.
\<close>

definition empty_geometry :: "'f GeometryData" where
  "empty_geometry = \<lparr>vertices = [], textureCoords = [], normals = [], tangents = [],
                      bitangents = [], faces = []\<rparr>"

definition vertexCount :: "'f GeometryData \<Rightarrow> nat" where
  "vertexCount g = length (vertices g) div 3"

datatype OBJDataType = NONE | VERTEX | TEXTURECOORD | NORMAL | FACE | COMMENT

text \<open>
  What the loader writes to \<^verbatim>\<open>cout\<close>, one value per message. The characters of a message
  are results of \<^verbatim>\<open>get()\<close>.
\<close>

datatype diag =
    UnableToOpen string
  | ParseError "char option" "char option"
  | FreeFormUnsupported
  | UnsupportedEntry "char option"
  | Loaded nat

text \<open>
  Undefined behaviour of the C++ is a value: reading a variable that was never written, signed
  overflow, and \<^verbatim>\<open>operator[]\<close> outside a vector.
\<close>

datatype error = UninitialisedRead | SignedOverflow | OutOfBounds

text \<open>The state of the parsing loop of \<^verbatim>\<open>loadFromOBJFile\<close>.\<close>

record 'f loader =
  currentDataType :: OBJDataType
  inStream :: istream
  tempGeom :: "'f GeometryData"
  cout :: "diag list"

subsection \<open>The parsing loop\<close>

text \<open>
  \<^verbatim>\<open>case NONE\<close> (lines 51 to 99). An unexpected first character is reported and
  \<^verbatim>\<open>currentDataType\<close> is left at \<^verbatim>\<open>NONE\<close>.
\<close>

definition step_NONE :: "'f loader \<Rightarrow> 'f loader" where
  "step_NONE L =
     (let (typeChar1, s2) = get (ws (inStream L))
      in if eofbit s2 then L\<lparr>inStream := s2\<rparr>
         else
           let (typeChar2, s3) = get s2;
               L3 = L\<lparr>inStream := s3\<rparr>
           in if typeChar1 = Some CHR ''#'' then L3\<lparr>currentDataType := COMMENT\<rparr>
              else if typeChar1 = Some CHR ''f'' then L3\<lparr>currentDataType := FACE\<rparr>
              else if typeChar1 \<noteq> Some CHR ''v''
                then L3\<lparr>cout := cout L @ [ParseError typeChar1 typeChar2]\<rparr>
              else if typeChar2 = Some CHR '' '' \<or> typeChar2 = Some (CHR 0x09)
                then L3\<lparr>currentDataType := VERTEX\<rparr>
              else if typeChar2 = Some CHR ''t'' then L3\<lparr>currentDataType := TEXTURECOORD\<rparr>
              else if typeChar2 = Some CHR ''n'' then L3\<lparr>currentDataType := NORMAL\<rparr>
              else if typeChar2 = Some CHR ''p''
                then L3\<lparr>cout := cout L @ [FreeFormUnsupported], currentDataType := COMMENT\<rparr>
              else L3\<lparr>cout := cout L @ [UnsupportedEntry typeChar2],
                      currentDataType := COMMENT\<rparr>)"

text \<open>
  \<^verbatim>\<open>inStream >> x >> y >> z\<close> into variables declared without initialisers, then the three
  \<^verbatim>\<open>push_back\<close>s; \<open>n\<close> is the number of floats read (3, or 2 for a texture coordinate).
\<close>

fun read_floats :: "'f float_ops \<Rightarrow> nat \<Rightarrow> istream \<Rightarrow> 'f option list \<times> istream" where
  "read_floats F 0 s = ([], s)"
| "read_floats F (Suc n) s =
     (let (x, s1) = read_float F None s;
          (xs, s2) = read_floats F n s1
      in (x # xs, s2))"

definition pushed :: "'f option list \<Rightarrow> error + 'f list" where
  "pushed xs = (if None \<in> set xs then Inl UninitialisedRead else Inr (map the xs))"

definition step_VERTEX :: "'f float_ops \<Rightarrow> 'f loader \<Rightarrow> error + 'f loader" where
  "step_VERTEX F L =
     (let (xs, s) = read_floats F 3 (inStream L)
      in case pushed xs of
           Inl e \<Rightarrow> Inl e
         | Inr fs \<Rightarrow> Inr (L\<lparr>inStream := s,
                             tempGeom := (tempGeom L)\<lparr>vertices := vertices (tempGeom L) @ fs\<rparr>,
                             currentDataType := COMMENT\<rparr>))"

definition step_TEXTURECOORD :: "'f float_ops \<Rightarrow> 'f loader \<Rightarrow> error + 'f loader" where
  "step_TEXTURECOORD F L =
     (let (xs, s) = read_floats F 2 (inStream L)
      in case pushed xs of
           Inl e \<Rightarrow> Inl e
         | Inr fs \<Rightarrow> Inr (L\<lparr>inStream := s,
                             tempGeom := (tempGeom L)\<lparr>textureCoords :=
                                            textureCoords (tempGeom L) @ fs\<rparr>,
                             currentDataType := COMMENT\<rparr>))"

definition step_NORMAL :: "'f float_ops \<Rightarrow> 'f loader \<Rightarrow> error + 'f loader" where
  "step_NORMAL F L =
     (let (xs, s) = read_floats F 3 (inStream L)
      in case pushed xs of
           Inl e \<Rightarrow> Inl e
         | Inr fs \<Rightarrow> Inr (L\<lparr>inStream := s,
                             tempGeom := (tempGeom L)\<lparr>normals := normals (tempGeom L) @ fs\<rparr>,
                             currentDataType := COMMENT\<rparr>))"

text \<open>
  One pass of the body of the corner loop up to the stores (lines 145 to 165). The triple is
  \<^verbatim>\<open>(vertIndex, texCoordIndex, normalIndex)\<close>: the three variables are declared before the
  loop, so a pass starts from the values the pass before left.
\<close>

definition read_corner :: "int \<times> int \<times> int \<Rightarrow> istream \<Rightarrow> (int \<times> int \<times> int) \<times> istream" where
  "read_corner vars s =
     (case vars of (vertIndex0, texCoordIndex0, normalIndex0) \<Rightarrow>
      let (vertIndex1, s1) = read_int vertIndex0 s;
          (postVertexCheckChar, s2) = get s1
      in if postVertexCheckChar = Some CHR ''/'' then
           let (texCoordExistCheckChar, s3) = get s2;
               s4 = unget s3;
               (texCoordIndex1, s5) =
                  (if texCoordExistCheckChar \<noteq> Some CHR ''/'' then read_int texCoordIndex0 s4
                   else (texCoordIndex0, s4));
               (postTexCoordCheckChar, s6) = get s5
           in if postTexCoordCheckChar = Some CHR ''/'' then
                let (normalIndex1, s7) = read_int normalIndex0 s6
                in ((vertIndex1, texCoordIndex1, normalIndex1), s7)
              else ((vertIndex1, texCoordIndex1, normalIndex0), unget s6)
         else ((vertIndex1, texCoordIndex0, normalIndex0), s2))"

text \<open>The three stores of lines 168 to 170; \<^verbatim>\<open>INT_MIN - 1\<close> overflows.\<close>

definition store_corner :: "nat \<Rightarrow> int \<times> int \<times> int \<Rightarrow> FaceData \<Rightarrow> error + FaceData" where
  "store_corner index vars face =
     (case vars of (vertIndex1, texCoordIndex1, normalIndex1) \<Rightarrow>
        if vertIndex1 = INT_MIN \<or> texCoordIndex1 = INT_MIN \<or> normalIndex1 = INT_MIN
        then Inl SignedOverflow
        else Inr (face\<lparr>vertexIndex := (vertexIndex face)[index := vertIndex1 - 1],
                       texCoordIndex := (texCoordIndex face)[index := texCoordIndex1 - 1],
                       normalIndex := (normalIndex face)[index := normalIndex1 - 1]\<rparr>))"

fun face_corners ::
  "nat list \<Rightarrow> int \<times> int \<times> int \<Rightarrow> FaceData \<Rightarrow> istream \<Rightarrow> error + FaceData \<times> istream" where
  "face_corners [] vars face s = Inr (face, s)"
| "face_corners (index # rest_indices) vars face s =
     (let (vars1, s1) = read_corner vars s
      in case store_corner index vars1 face of
           Inl e \<Rightarrow> Inl e
         | Inr face1 \<Rightarrow> face_corners rest_indices vars1 face1 s1)"

text \<open>\<^verbatim>\<open>case FACE\<close>: the variables start at 0 and \<^verbatim>\<open>FaceData face = {}\<close> is all zeros.\<close>

definition step_FACE :: "'f loader \<Rightarrow> error + 'f loader" where
  "step_FACE L =
     (case face_corners [0, 1, 2] (0, 0, 0)
             \<lparr>vertexIndex = [0, 0, 0], texCoordIndex = [0, 0, 0], normalIndex = [0, 0, 0]\<rparr>
             (inStream L) of
        Inl e \<Rightarrow> Inl e
      | Inr (face, s) \<Rightarrow>
          Inr (L\<lparr>inStream := s,
                 tempGeom := (tempGeom L)\<lparr>faces := faces (tempGeom L) @ [face]\<rparr>,
                 currentDataType := COMMENT\<rparr>))"

definition step_COMMENT :: "'f loader \<Rightarrow> 'f loader" where
  "step_COMMENT L =
     (let (nextChar, s) = get (inStream L)
      in if nextChar = Some (CHR 0x0A) then L\<lparr>inStream := s, currentDataType := NONE\<rparr>
         else L\<lparr>inStream := s\<rparr>)"

text \<open>The \<^verbatim>\<open>switch\<close>: one pass of the body of \<^verbatim>\<open>while(!inStream.eof())\<close>.\<close>

definition step :: "'f float_ops \<Rightarrow> 'f loader \<Rightarrow> error + 'f loader" where
  "step F L =
     (case currentDataType L of
        NONE \<Rightarrow> Inr (step_NONE L)
      | VERTEX \<Rightarrow> step_VERTEX F L
      | TEXTURECOORD \<Rightarrow> step_TEXTURECOORD F L
      | NORMAL \<Rightarrow> step_NORMAL F L
      | FACE \<Rightarrow> step_FACE L
      | COMMENT \<Rightarrow> Inr (step_COMMENT L))"

text \<open>
  \<^verbatim>\<open>while(!inStream.eof())\<close>. The loop need not end (a failed extraction leaves
  \<^verbatim>\<open>failbit\<close> set and \<^verbatim>\<open>eofbit\<close> clear for ever): \<open>None\<close> is the loop that never ends.
\<close>

partial_function (option) parse_loop :: "'f float_ops \<Rightarrow> 'f loader \<Rightarrow> (error + 'f loader) option"
  where
  "parse_loop F L =
     (if eofbit (inStream L) then Some (Inr L)
      else case step F L of
             Inl e \<Rightarrow> Some (Inl e)
           | Inr L1 \<Rightarrow> parse_loop F L1)"

declare parse_loop.simps [code]

text \<open>The stream right after a successful \<^verbatim>\<open>open\<close>, and the loop's initial state.\<close>

definition opened :: "string \<Rightarrow> istream" where
  "opened content = \<lparr>rest = content, pback = None, eofbit = False, failbit = False\<rparr>"

definition initial :: "string \<Rightarrow> 'f loader" where
  "initial content = \<lparr>currentDataType = NONE, inStream = opened content,
                       tempGeom = empty_geometry, cout = []\<rparr>"

subsection \<open>The expansion loop\<close>

text \<open>
  \<^verbatim>\<open>pool[(m*index)+i]\<close>: the \<^verbatim>\<open>int\<close> arithmetic of the subscript, then
  \<^verbatim>\<open>operator[]\<close>, which checks nothing. (\<open>i\<close> is 0, 1 or 2, so the sum only overflows
  upwards.)
\<close>

definition at_index :: "'f list \<Rightarrow> int \<Rightarrow> int \<Rightarrow> nat \<Rightarrow> error + 'f" where
  "at_index pool m index i =
     (let k = m * index + int i
      in if m * index < INT_MIN \<or> INT_MAX < m * index \<or> INT_MAX < k then Inl SignedOverflow
         else if 0 \<le> k \<and> nat k < length pool then Inr (pool ! nat k)
         else Inl OutOfBounds)"

text \<open>The inner loops \<^verbatim>\<open>for(int i=0; i<n; i++) push_back(pool[(m*index)+i])\<close>.\<close>

fun copy_from :: "'f list \<Rightarrow> int \<Rightarrow> int \<Rightarrow> nat list \<Rightarrow> error + 'f list" where
  "copy_from pool m index [] = Inr []"
| "copy_from pool m index (i # others) =
     (case at_index pool m index i of
        Inl e \<Rightarrow> Inl e
      | Inr x \<Rightarrow> (case copy_from pool m index others of
                    Inl e \<Rightarrow> Inl e
                  | Inr xs \<Rightarrow> Inr (x # xs)))"

text \<open>
  The body of \<^verbatim>\<open>for(int vertIndex=0; vertIndex<3; vertIndex++)\<close> (lines 205 to 224);
  \<open>temp\<close> is \<^verbatim>\<open>tempGeom\<close> and \<open>this\<close> is the object the load was called on.
\<close>

definition expand_corner ::
  "'f GeometryData \<Rightarrow> FaceData \<Rightarrow> bool \<Rightarrow> bool \<Rightarrow> nat \<Rightarrow> 'f GeometryData
     \<Rightarrow> error + 'f GeometryData" where
  "expand_corner temp face hasTextureCoords hasNormals vertIndex this =
     (case copy_from (vertices temp) 3 (vertexIndex face ! vertIndex) [0, 1, 2] of
        Inl e \<Rightarrow> Inl e
      | Inr ps \<Rightarrow>
         (case (if hasTextureCoords
                then copy_from (textureCoords temp) 2 (texCoordIndex face ! vertIndex) [0, 1]
                else Inr []) of
            Inl e \<Rightarrow> Inl e
          | Inr ts \<Rightarrow>
             (case (if hasNormals
                    then copy_from (normals temp) 3 (normalIndex face ! vertIndex) [0, 1, 2]
                    else Inr []) of
                Inl e \<Rightarrow> Inl e
              | Inr ns \<Rightarrow> Inr (this\<lparr>vertices := vertices this @ ps,
                                    textureCoords := textureCoords this @ ts,
                                    normals := normals this @ ns\<rparr>))))"

fun expand_corners ::
  "'f GeometryData \<Rightarrow> FaceData \<Rightarrow> bool \<Rightarrow> bool \<Rightarrow> nat list \<Rightarrow> 'f GeometryData
     \<Rightarrow> error + 'f GeometryData" where
  "expand_corners temp face hasTextureCoords hasNormals [] this = Inr this"
| "expand_corners temp face hasTextureCoords hasNormals (vertIndex # others) this =
     (case expand_corner temp face hasTextureCoords hasNormals vertIndex this of
        Inl e \<Rightarrow> Inl e
      | Inr this1 \<Rightarrow> expand_corners temp face hasTextureCoords hasNormals others this1)"

text \<open>
  Lines 230 to 269: the tangent and the bitangent of the face whose 9 positions and 6 texture
  coordinates are the last ones of \<open>this\<close>. The result is
  \<^verbatim>\<open>((tangentX, tangentY, tangentZ), (bitangentX, bitangentY, bitangentZ))\<close>.
\<close>

definition face_tangents ::
  "'f float_ops \<Rightarrow> 'f GeometryData \<Rightarrow> ('f \<times> 'f \<times> 'f) \<times> ('f \<times> 'f \<times> 'f)" where
  "face_tangents F this =
     (let vertexStartIndex = length (vertices this) - 9;
          uvStartIndex = length (textureCoords this) - 6;
          v = (\<lambda>j. vertices this ! (vertexStartIndex + j));
          texCoords = (\<lambda>j. textureCoords this ! (uvStartIndex + j));
          deltaX1 = fsub F (v 3) (v 0);
          deltaY1 = fsub F (v 4) (v 1);
          deltaZ1 = fsub F (v 5) (v 2);
          deltaX2 = fsub F (v 6) (v 0);
          deltaY2 = fsub F (v 7) (v 1);
          deltaZ2 = fsub F (v 8) (v 2);
          deltaU1 = fsub F (texCoords 2) (texCoords 0);
          deltaV1 = fsub F (texCoords 3) (texCoords 1);
          deltaU2 = fsub F (texCoords 4) (texCoords 0);
          deltaV2 = fsub F (texCoords 5) (texCoords 1);
          inverseDet = fdiv F (fone F) (fsub F (fmul F deltaU1 deltaV2) (fmul F deltaU2 deltaV1));
          tangentX = fmul F inverseDet (fsub F (fmul F deltaV2 deltaX1) (fmul F deltaV1 deltaX2));
          tangentY = fmul F inverseDet (fsub F (fmul F deltaV2 deltaY1) (fmul F deltaV1 deltaY2));
          tangentZ = fmul F inverseDet (fsub F (fmul F deltaV2 deltaZ1) (fmul F deltaV1 deltaZ2));
          bitangentX = fmul F inverseDet (fsub F (fmul F deltaU1 deltaX2) (fmul F deltaU2 deltaX1));
          bitangentY = fmul F inverseDet (fsub F (fmul F deltaU1 deltaY2) (fmul F deltaU2 deltaY1));
          bitangentZ = fmul F inverseDet (fsub F (fmul F deltaU1 deltaZ2) (fmul F deltaU2 deltaZ1));
          tangentLength = fsqrt F (fadd F (fadd F (fmul F tangentX tangentX)
                                                  (fmul F tangentY tangentY))
                                          (fmul F tangentZ tangentZ));
          bitangentLength = fsqrt F (fadd F (fadd F (fmul F bitangentX bitangentX)
                                                    (fmul F bitangentY bitangentY))
                                            (fmul F bitangentZ bitangentZ))
      in ((fdiv F tangentX tangentLength, fdiv F tangentY tangentLength,
           fdiv F tangentZ tangentLength),
          (fdiv F bitangentX bitangentLength, fdiv F bitangentY bitangentLength,
           fdiv F bitangentZ bitangentLength)))"

text \<open>Lines 272 to 281: the pair is pushed once for each of the three corners.\<close>

fun push_tangents ::
  "('f \<times> 'f \<times> 'f) \<times> ('f \<times> 'f \<times> 'f) \<Rightarrow> nat list \<Rightarrow> 'f GeometryData \<Rightarrow> 'f GeometryData" where
  "push_tangents tb [] this = this"
| "push_tangents tb (vertIndex # others) this =
     (case tb of ((tangentX, tangentY, tangentZ), (bitangentX, bitangentY, bitangentZ)) \<Rightarrow>
        push_tangents tb others
          (this\<lparr>tangents := tangents this @ [tangentX, tangentY, tangentZ],
                bitangents := bitangents this @ [bitangentX, bitangentY, bitangentZ]\<rparr>))"

text \<open>The body of the loop over the faces (lines 200 to 282).\<close>

definition expand_face ::
  "'f float_ops \<Rightarrow> 'f GeometryData \<Rightarrow> FaceData \<Rightarrow> 'f GeometryData \<Rightarrow> error + 'f GeometryData" where
  "expand_face F temp face this =
     (let hasTextureCoords = (0 \<le> texCoordIndex face ! 0);
          hasNormals = (0 \<le> normalIndex face ! 0)
      in case expand_corners temp face hasTextureCoords hasNormals [0, 1, 2] this of
           Inl e \<Rightarrow> Inl e
         | Inr this1 \<Rightarrow>
             if hasTextureCoords \<and> hasNormals
             then Inr (push_tangents (face_tangents F this1) [0, 1, 2] this1)
             else Inr this1)"

fun expand ::
  "'f float_ops \<Rightarrow> 'f GeometryData \<Rightarrow> FaceData list \<Rightarrow> 'f GeometryData
     \<Rightarrow> error + 'f GeometryData" where
  "expand F temp [] this = Inr this"
| "expand F temp (face # others) this =
     (case expand_face F temp face this of
        Inl e \<Rightarrow> Inl e
      | Inr this1 \<Rightarrow> expand F temp others this1)"

subsection \<open>loadFromOBJFile\<close>

text \<open>
  \<open>fs\<close> is the file system: the content of each file that can be opened. The result is
  \<open>None\<close> when the parsing loop never ends, an error when the C++ has undefined behaviour, and
  otherwise the object after the call with what the call wrote to \<^verbatim>\<open>cout\<close>.
\<close>

definition loadFromOBJFile ::
  "'f float_ops \<Rightarrow> (string \<Rightarrow> string option) \<Rightarrow> string \<Rightarrow> 'f GeometryData
     \<Rightarrow> (error + 'f GeometryData \<times> diag list) option" where
  "loadFromOBJFile F fs filename this =
     (case fs filename of
        None \<Rightarrow> Some (Inr (this, [UnableToOpen filename]))
      | Some content \<Rightarrow>
         (case parse_loop F (initial content) of
            None \<Rightarrow> None
          | Some (Inl e) \<Rightarrow> Some (Inl e)
          | Some (Inr L) \<Rightarrow>
             (case expand F (tempGeom L) (faces (tempGeom L)) this of
                Inl e \<Rightarrow> Some (Inl e)
              | Inr this1 \<Rightarrow>
                  Some (Inr (this1, cout L @ [Loaded (length (vertices this1) div 3)])))))"

subsection \<open>What the expansion appends\<close>

text \<open>
  The values \<^verbatim>\<open>pool[(m*index)+i]\<close> for \<open>i\<close> in \<open>is\<close>, then the floats one face adds to
  the position, texture-coordinate and normal sequences: for each of the corners 0, 1, 2 the
  components at the corner's index, the last two only when corner 0 has the index.
\<close>

definition pool_values :: "'f list \<Rightarrow> int \<Rightarrow> int \<Rightarrow> nat list \<Rightarrow> 'f list" where
  "pool_values pool m index is = map (\<lambda>i. pool ! nat (m * index + int i)) is"

definition corner_out ::
  "'f GeometryData \<Rightarrow> FaceData \<Rightarrow> bool \<Rightarrow> bool \<Rightarrow> nat \<Rightarrow> 'f list \<times> 'f list \<times> 'f list" where
  "corner_out temp face hasT hasN k =
     (pool_values (vertices temp) 3 (vertexIndex face ! k) [0, 1, 2],
      (if hasT then pool_values (textureCoords temp) 2 (texCoordIndex face ! k) [0, 1] else []),
      (if hasN then pool_values (normals temp) 3 (normalIndex face ! k) [0, 1, 2] else []))"

definition has_both :: "FaceData \<Rightarrow> bool" where
  "has_both face = (0 \<le> texCoordIndex face ! 0 \<and> 0 \<le> normalIndex face ! 0)"

definition face_positions :: "'f GeometryData \<Rightarrow> FaceData \<Rightarrow> 'f list" where
  "face_positions temp face =
     concat (map (\<lambda>k. pool_values (vertices temp) 3 (vertexIndex face ! k) [0, 1, 2]) [0, 1, 2])"

definition face_texcoords :: "'f GeometryData \<Rightarrow> FaceData \<Rightarrow> 'f list" where
  "face_texcoords temp face =
     (if 0 \<le> texCoordIndex face ! 0
      then concat (map (\<lambda>k. pool_values (textureCoords temp) 2 (texCoordIndex face ! k) [0, 1])
                       [0, 1, 2])
      else [])"

definition face_normals :: "'f GeometryData \<Rightarrow> FaceData \<Rightarrow> 'f list" where
  "face_normals temp face =
     (if 0 \<le> normalIndex face ! 0
      then concat (map (\<lambda>k. pool_values (normals temp) 3 (normalIndex face ! k) [0, 1, 2])
                       [0, 1, 2])
      else [])"

text \<open>The object after the three corners of a face, and after the whole face.\<close>

definition with_corners :: "'f GeometryData \<Rightarrow> FaceData \<Rightarrow> 'f GeometryData \<Rightarrow> 'f GeometryData" where
  "with_corners temp face this =
     this\<lparr>vertices := vertices this @ face_positions temp face,
          textureCoords := textureCoords this @ face_texcoords temp face,
          normals := normals this @ face_normals temp face\<rparr>"

definition with_face ::
  "'f float_ops \<Rightarrow> 'f GeometryData \<Rightarrow> FaceData \<Rightarrow> 'f GeometryData \<Rightarrow> 'f GeometryData" where
  "with_face F temp face this =
     (if has_both face
      then push_tangents (face_tangents F (with_corners temp face this)) [0, 1, 2]
             (with_corners temp face this)
      else with_corners temp face this)"

subsection \<open>An interpretation of the float operations, for the examples\<close>

text \<open>
  A float is the expression that computes it: the operations are constructors, and
  \<open>strtof\<close> keeps the text it was given.
\<close>

datatype fexpr =
    Lit string
  | FZero
  | FOne
  | FAdd fexpr fexpr
  | FSub fexpr fexpr
  | FMul fexpr fexpr
  | FDiv fexpr fexpr
  | FSqrt fexpr

definition symbolic :: "fexpr float_ops" where
  "symbolic = \<lparr>strtof = (\<lambda>s. (Lit s, False)), fzero = FZero, fone = FOne, fadd = FAdd,
                fsub = FSub, fmul = FMul, fdiv = FDiv, fsqrt = FSqrt\<rparr>"

text \<open>A file system with no file.\<close>

definition no_files :: "string \<Rightarrow> string option" where
  "no_files name = None"

subsection \<open>The tangent space as the specification writes it\<close>

text \<open>
  Section 4.2 of the specification, over the same float operations: \<open>e1 = P1 - P0\<close>,
  \<open>e2 = P2 - P0\<close>, \<open>duv1 = UV1 - UV0\<close>, \<open>duv2 = UV2 - UV0\<close>,
  \<open>det = duv1.u*duv2.v - duv2.u*duv1.v\<close>, \<open>invDet = 1 / det\<close>,
  \<open>T = invDet * (duv2.v*e1 - duv1.v*e2)\<close>, \<open>B = invDet * (duv1.u*e2 - duv2.u*e1)\<close>,
  \<open>T = normalize(T)\<close>, \<open>B = normalize(B)\<close>, where \<open>normalize\<close> divides a vector by the
  square root of the sum of the squares of its components. This definition is written from the
  specification, to be compared with \<open>face_tangents\<close>, which is written from the code.
\<close>

definition vsub :: "'f float_ops \<Rightarrow> 'f \<times> 'f \<times> 'f \<Rightarrow> 'f \<times> 'f \<times> 'f \<Rightarrow> 'f \<times> 'f \<times> 'f" where
  "vsub F p q = (case p of (px, py, pz) \<Rightarrow> case q of (qx, qy, qz) \<Rightarrow>
                   (fsub F px qx, fsub F py qy, fsub F pz qz))"

definition vscale :: "'f float_ops \<Rightarrow> 'f \<Rightarrow> 'f \<times> 'f \<times> 'f \<Rightarrow> 'f \<times> 'f \<times> 'f" where
  "vscale F a p = (case p of (px, py, pz) \<Rightarrow> (fmul F a px, fmul F a py, fmul F a pz))"

definition normalize :: "'f float_ops \<Rightarrow> 'f \<times> 'f \<times> 'f \<Rightarrow> 'f \<times> 'f \<times> 'f" where
  "normalize F p = (case p of (px, py, pz) \<Rightarrow>
     let len = fsqrt F (fadd F (fadd F (fmul F px px) (fmul F py py)) (fmul F pz pz))
     in (fdiv F px len, fdiv F py len, fdiv F pz len))"

definition spec_tangent_space ::
  "'f float_ops \<Rightarrow> 'f \<times> 'f \<times> 'f \<Rightarrow> 'f \<times> 'f \<times> 'f \<Rightarrow> 'f \<times> 'f \<times> 'f \<Rightarrow> 'f \<times> 'f \<Rightarrow> 'f \<times> 'f \<Rightarrow> 'f \<times> 'f
     \<Rightarrow> ('f \<times> 'f \<times> 'f) \<times> ('f \<times> 'f \<times> 'f)" where
  "spec_tangent_space F P0 P1 P2 UV0 UV1 UV2 =
     (let e1 = vsub F P1 P0;
          e2 = vsub F P2 P0;
          duv1 = (fsub F (fst UV1) (fst UV0), fsub F (snd UV1) (snd UV0));
          duv2 = (fsub F (fst UV2) (fst UV0), fsub F (snd UV2) (snd UV0));
          det = fsub F (fmul F (fst duv1) (snd duv2)) (fmul F (fst duv2) (snd duv1));
          invDet = fdiv F (fone F) det;
          T = vscale F invDet (vsub F (vscale F (snd duv2) e1) (vscale F (snd duv1) e2));
          B = vscale F invDet (vsub F (vscale F (fst duv1) e2) (vscale F (fst duv2) e1))
      in (normalize F T, normalize F B))"

text \<open>Three, and two, consecutive elements of a flat sequence.\<close>

definition triple_at :: "'f list \<Rightarrow> nat \<Rightarrow> 'f \<times> 'f \<times> 'f" where
  "triple_at xs n = (xs ! n, xs ! (n + 1), xs ! (n + 2))"

definition pair_at :: "'f list \<Rightarrow> nat \<Rightarrow> 'f \<times> 'f" where
  "pair_at xs n = (xs ! n, xs ! (n + 1))"

text \<open>The object \<open>a\<close> with the five buffers of \<open>b\<close> appended to its own.\<close>

definition append_buffers :: "'f GeometryData \<Rightarrow> 'f GeometryData \<Rightarrow> 'f GeometryData" where
  "append_buffers a b =
     a\<lparr>vertices := vertices a @ vertices b,
       textureCoords := textureCoords a @ textureCoords b,
       normals := normals a @ normals b,
       tangents := tangents a @ tangents b,
       bitangents := bitangents a @ bitangents b\<rparr>"

text \<open>
  A file with three positions and one face without texture coordinates and normals, whose
  first two corners are the same position.
\<close>

definition plain_obj :: string where
  "plain_obj = ''v 0 0 0'' @ [CHR 0x0A] @ ''v 1 0 0'' @ [CHR 0x0A] @ ''v 0 1 0'' @ [CHR 0x0A]
             @ ''f 1 1 2'' @ [CHR 0x0A]"

text \<open>A file with a face that has texture coordinates and normals, and one that has none.\<close>

definition tri_obj :: string where
  "tri_obj = ''v 0 0 0'' @ [CHR 0x0A] @ ''v 1 0 0'' @ [CHR 0x0A] @ ''v 0 1 0'' @ [CHR 0x0A]
           @ ''vt 0 0'' @ [CHR 0x0A] @ ''vt 1 0'' @ [CHR 0x0A] @ ''vt 0 1'' @ [CHR 0x0A]
           @ ''vn 0 0 1'' @ [CHR 0x0A]
           @ ''f 1/1/1 2/2/1 3/3/1'' @ [CHR 0x0A]
           @ ''f 1 1 2'' @ [CHR 0x0A]"

definition example_fs :: "string \<Rightarrow> string option" where
  "example_fs name = (if name = ''tri.obj'' then Some tri_obj
                      else if name = ''plain.obj'' then Some plain_obj else None)"

text \<open>What the loop leaves, and what the load makes of it, for the two files.\<close>

definition at_end :: istream where
  "at_end = \<lparr>rest = [], pback = Some (CHR 0x0A), eofbit = True, failbit = True\<rparr>"

definition plain_parsed :: "fexpr loader" where
  "plain_parsed =
     \<lparr>currentDataType = COMMENT, inStream = at_end,
      tempGeom = \<lparr>vertices = map Lit [''0'', ''0'', ''0'', ''1'', ''0'', ''0'', ''0'', ''1'', ''0''],
                  textureCoords = [], normals = [], tangents = [], bitangents = [],
                  faces = [\<lparr>vertexIndex = [0, 0, 1], texCoordIndex = [- 1, - 1, - 1],
                             normalIndex = [- 1, - 1, - 1]\<rparr>]\<rparr>,
      cout = []\<rparr>"

definition plain_mesh :: "fexpr GeometryData" where
  "plain_mesh = \<lparr>vertices = map Lit [''0'', ''0'', ''0'', ''0'', ''0'', ''0'', ''1'', ''0'', ''0''],
                  textureCoords = [], normals = [], tangents = [], bitangents = [], faces = []\<rparr>"

definition tri_pools :: "fexpr GeometryData" where
  "tri_pools =
     \<lparr>vertices = map Lit [''0'', ''0'', ''0'', ''1'', ''0'', ''0'', ''0'', ''1'', ''0''],
      textureCoords = map Lit [''0'', ''0'', ''1'', ''0'', ''0'', ''1''],
      normals = map Lit [''0'', ''0'', ''1''], tangents = [], bitangents = [],
      faces = [\<lparr>vertexIndex = [0, 1, 2], texCoordIndex = [0, 1, 2], normalIndex = [0, 0, 0]\<rparr>,
               \<lparr>vertexIndex = [0, 0, 1], texCoordIndex = [- 1, - 1, - 1],
                 normalIndex = [- 1, - 1, - 1]\<rparr>]\<rparr>"

definition tri_parsed :: "fexpr loader" where
  "tri_parsed = \<lparr>currentDataType = COMMENT, inStream = at_end, tempGeom = tri_pools, cout = []\<rparr>"

definition tri_tangent_space :: "(fexpr \<times> fexpr \<times> fexpr) \<times> (fexpr \<times> fexpr \<times> fexpr)" where
  "tri_tangent_space =
     spec_tangent_space symbolic
       (Lit ''0'', Lit ''0'', Lit ''0'') (Lit ''1'', Lit ''0'', Lit ''0'')
       (Lit ''0'', Lit ''1'', Lit ''0'')
       (Lit ''0'', Lit ''0'') (Lit ''1'', Lit ''0'') (Lit ''0'', Lit ''1'')"

definition tri_face_mesh :: "fexpr GeometryData" where
  "tri_face_mesh =
     (case tri_tangent_space of ((tx, ty, tz), (bx, by, bz)) \<Rightarrow>
        \<lparr>vertices = map Lit [''0'', ''0'', ''0'', ''1'', ''0'', ''0'', ''0'', ''1'', ''0''],
         textureCoords = map Lit [''0'', ''0'', ''1'', ''0'', ''0'', ''1''],
         normals = map Lit [''0'', ''0'', ''1'', ''0'', ''0'', ''1'', ''0'', ''0'', ''1''],
         tangents = [tx, ty, tz, tx, ty, tz, tx, ty, tz],
         bitangents = [bx, by, bz, bx, by, bz, bx, by, bz],
         faces = []\<rparr>)"

definition tri_mesh :: "fexpr GeometryData" where
  "tri_mesh = append_buffers tri_face_mesh plain_mesh"

text \<open>
  A face whose corner 0 has no texture-coordinate and no normal index while its corners 1 and
  2 have valid ones, as the loop stores it for the line \<^verbatim>\<open>f 1 2/2/1 3/3/1\<close>.
\<close>

definition late_face :: FaceData where
  "late_face = \<lparr>vertexIndex = [0, 1, 2], texCoordIndex = [- 1, 1, 2], normalIndex = [- 1, 0, 0]\<rparr>"

subsection \<open>The text of a face line\<close>

text \<open>A natural number in decimal, and the four forms of a corner of a face line:
  \<^verbatim>\<open>p\<close>, \<^verbatim>\<open>p/t\<close>, \<^verbatim>\<open>p//n\<close> and \<^verbatim>\<open>p/t/n\<close>.\<close>

fun show_nat :: "nat \<Rightarrow> string" where
  "show_nat n = (if n < 10 then [''0123456789'' ! n]
                 else show_nat (n div 10) @ [''0123456789'' ! (n mod 10)])"

declare show_nat.simps [simp del]

datatype corner = V nat | VT nat nat | VN nat nat | VTN nat nat nat

fun show_corner :: "corner \<Rightarrow> string" where
  "show_corner (V p) = show_nat p"
| "show_corner (VT p t) = show_nat p @ ''/'' @ show_nat t"
| "show_corner (VN p n) = show_nat p @ ''//'' @ show_nat n"
| "show_corner (VTN p t n) = show_nat p @ ''/'' @ show_nat t @ ''/'' @ show_nat n"

text \<open>A good stream: the characters left and the character that can be put back.\<close>

definition stream_at :: "string \<Rightarrow> char option \<Rightarrow> istream" where
  "stream_at r pb = \<lparr>rest = r, pback = pb, eofbit = False, failbit = False\<rparr>"

text \<open>
  The values of the three variables after a corner, from the values before it: a corner
  writes the variables whose slots it gives and leaves the others as they were.
\<close>

fun corner_vars :: "int \<times> int \<times> int \<Rightarrow> corner \<Rightarrow> int \<times> int \<times> int" where
  "corner_vars (v, t, n) (V p) = (int p, t, n)"
| "corner_vars (v, t, n) (VT p t1) = (int p, int t1, n)"
| "corner_vars (v, t, n) (VN p n1) = (int p, t, int n1)"
| "corner_vars (v, t, n) (VTN p t1 n1) = (int p, int t1, int n1)"

text \<open>
  After a corner that is followed by the character \<open>x\<close>: what is left of the corner and
  \<open>x\<close> in the stream (a corner that is a position index alone takes \<open>x\<close> with it), and the
  character that can be put back.
\<close>

fun corner_left :: "corner \<Rightarrow> char \<Rightarrow> string" where
  "corner_left (V p) x = []"
| "corner_left c x = [x]"

fun corner_pback :: "corner \<Rightarrow> char \<Rightarrow> char option" where
  "corner_pback (V p) x = Some x"
| "corner_pback (VT p t) x = None"
| "corner_pback (VN p n) x = Some (last (show_nat n))"
| "corner_pback (VTN p t n) x = Some (last (show_nat n))"

definition after_corner :: "corner \<Rightarrow> char \<Rightarrow> string \<Rightarrow> istream" where
  "after_corner c x r = stream_at (corner_left c x @ r) (corner_pback c x)"

text \<open>The indices of a corner are values of \<^verbatim>\<open>int\<close>.\<close>

fun corner_fits :: "corner \<Rightarrow> bool" where
  "corner_fits (V p) = (int p \<le> INT_MAX)"
| "corner_fits (VT p t) = (int p \<le> INT_MAX \<and> int t \<le> INT_MAX)"
| "corner_fits (VN p n) = (int p \<le> INT_MAX \<and> int n \<le> INT_MAX)"
| "corner_fits (VTN p t n) = (int p \<le> INT_MAX \<and> int t \<le> INT_MAX \<and> int n \<le> INT_MAX)"

text \<open>The face the corner loop stores for three corners.\<close>

definition face_of :: "corner \<Rightarrow> corner \<Rightarrow> corner \<Rightarrow> FaceData" where
  "face_of c0 c1 c2 =
     (let v0 = corner_vars (0, 0, 0) c0; v1 = corner_vars v0 c1; v2 = corner_vars v1 c2
      in \<lparr>vertexIndex = [fst v0 - 1, fst v1 - 1, fst v2 - 1],
          texCoordIndex = [fst (snd v0) - 1, fst (snd v1) - 1, fst (snd v2) - 1],
          normalIndex = [snd (snd v0) - 1, snd (snd v1) - 1, snd (snd v2) - 1]\<rparr>)"

definition nonneg3 :: "int \<times> int \<times> int \<Rightarrow> bool" where
  "nonneg3 vars = (case vars of (v, t, n) \<Rightarrow> 0 \<le> v \<and> 0 \<le> t \<and> 0 \<le> n)"

text \<open>A space or a tab; and what a corner gives for each slot.\<close>

definition isblank :: "char \<Rightarrow> bool" where
  "isblank c = (c = CHR '' '' \<or> c = CHR 0x09)"

fun position_of :: "corner \<Rightarrow> nat" where
  "position_of (V p) = p"
| "position_of (VT p t) = p"
| "position_of (VN p n) = p"
| "position_of (VTN p t n) = p"

fun texture_of :: "corner \<Rightarrow> nat option" where
  "texture_of (V p) = None"
| "texture_of (VT p t) = Some t"
| "texture_of (VN p n) = None"
| "texture_of (VTN p t n) = Some t"

fun normal_of :: "corner \<Rightarrow> nat option" where
  "normal_of (V p) = None"
| "normal_of (VT p t) = None"
| "normal_of (VN p n) = Some n"
| "normal_of (VTN p t n) = Some n"

text \<open>
  The loop in \<^verbatim>\<open>case FACE\<close> on the line \<^verbatim>\<open>f 1 2 3\<close>, after \<^verbatim>\<open>case NONE\<close> has taken
  the \<^verbatim>\<open>f\<close> and the space, and the face the line stores.
\<close>

definition face_line_example :: "fexpr loader" where
  "face_line_example =
     \<lparr>currentDataType = FACE,
      inStream = stream_at (''1 2 3'' @ [CHR 0x0A]) (Some CHR '' ''),
      tempGeom = tri_pools\<lparr>faces := []\<rparr>, cout = []\<rparr>"

definition face_123 :: FaceData where
  "face_123 = \<lparr>vertexIndex = [0, 1, 2], texCoordIndex = [- 1, - 1, - 1],
                normalIndex = [- 1, - 1, - 1]\<rparr>"

subsection \<open>A loop that never ends\<close>

text \<open>
  In \<^verbatim>\<open>case COMMENT\<close> with \<^verbatim>\<open>failbit\<close> set and \<^verbatim>\<open>eofbit\<close> clear, every
  \<^verbatim>\<open>get()\<close> fails and nothing sets \<^verbatim>\<open>eofbit\<close>. \<open>after_steps n\<close> is the state after
  \<open>n\<close> passes of the loop, when there are that many.
\<close>

definition stuck :: "'f loader \<Rightarrow> bool" where
  "stuck L = (currentDataType L = COMMENT \<and> failbit (inStream L) \<and> \<not> eofbit (inStream L))"

fun after_steps :: "nat \<Rightarrow> 'f float_ops \<Rightarrow> 'f loader \<Rightarrow> 'f loader option" where
  "after_steps 0 F L = Some L"
| "after_steps (Suc n) F L =
     (if eofbit (inStream L) then None
      else case step F L of Inl e \<Rightarrow> None | Inr L1 \<Rightarrow> after_steps n F L1)"

section \<open>Properties\<close>

subsection \<open>The expansion\<close>

lemma at_index_Inr:
  "at_index pool m index i = Inr x \<Longrightarrow>
     x = pool ! nat (m * index + int i) \<and> 0 \<le> m * index + int i
     \<and> nat (m * index + int i) < length pool"
  by (auto simp: at_index_def Let_def split: if_splits)

lemma copy_from_Inr:
  "copy_from pool m index is = Inr xs \<Longrightarrow> xs = pool_values pool m index is"
  by (induction "is" arbitrary: xs)
     (auto simp: pool_values_def split: sum.splits dest: at_index_Inr)

lemma length_pool_values [simp]: "length (pool_values pool m index is) = length is"
  by (simp add: pool_values_def)

lemma expand_corner_Inr:
  assumes "expand_corner temp face hasT hasN k this = Inr this1"
  shows "this1 = this\<lparr>vertices := vertices this @ fst (corner_out temp face hasT hasN k),
                       textureCoords :=
                         textureCoords this @ fst (snd (corner_out temp face hasT hasN k)),
                       normals := normals this @ snd (snd (corner_out temp face hasT hasN k))\<rparr>"
  using assms
  by (auto simp: expand_corner_def corner_out_def simp del: copy_from.simps
        split: sum.splits if_splits dest!: copy_from_Inr)

lemma expand_corners_Inr:
  "expand_corners temp face hasT hasN ks this = Inr this1 \<Longrightarrow>
   this1 = this\<lparr>vertices :=
                   vertices this @ concat (map (\<lambda>k. fst (corner_out temp face hasT hasN k)) ks),
                 textureCoords :=
                   textureCoords this
                   @ concat (map (\<lambda>k. fst (snd (corner_out temp face hasT hasN k))) ks),
                 normals :=
                   normals this
                   @ concat (map (\<lambda>k. snd (snd (corner_out temp face hasT hasN k))) ks)\<rparr>"
proof (induction ks arbitrary: this)
  case Nil
  then show ?case by simp
next
  case (Cons k ks)
  from Cons.prems obtain mid where
    m: "expand_corner temp face hasT hasN k this = Inr mid"
    and r: "expand_corners temp face hasT hasN ks mid = Inr this1"
    by (auto split: sum.splits)
  show ?case
    using Cons.IH [OF r] expand_corner_Inr [OF m] by simp
qed

lemma length_face_positions [simp]: "length (face_positions temp face) = 9"
  by (simp add: face_positions_def)

lemma length_face_texcoords:
  "length (face_texcoords temp face) = (if 0 \<le> texCoordIndex face ! 0 then 6 else 0)"
  by (simp add: face_texcoords_def)

lemma length_face_normals:
  "length (face_normals temp face) = (if 0 \<le> normalIndex face ! 0 then 9 else 0)"
  by (simp add: face_normals_def)

lemma expand_corners_face:
  assumes "expand_corners temp face (0 \<le> texCoordIndex face ! 0) (0 \<le> normalIndex face ! 0)
             [0, 1, 2] this = Inr this1"
  shows "this1 = with_corners temp face this"
  using expand_corners_Inr [OF assms]
  by (simp add: with_corners_def corner_out_def face_positions_def face_texcoords_def
        face_normals_def)

lemma push_tangents_three:
  "push_tangents ((tx, ty, tz), (bx, by, bz)) [0, 1, 2] this =
     this\<lparr>tangents := tangents this @ [tx, ty, tz, tx, ty, tz, tx, ty, tz],
          bitangents := bitangents this @ [bx, by, bz, bx, by, bz, bx, by, bz]\<rparr>"
  by simp

lemma expand_face_Inr:
  assumes "expand_face F temp face this = Inr this1"
  shows "this1 = with_face F temp face this"
proof -
  let ?c = "expand_corners temp face (0 \<le> texCoordIndex face ! 0) (0 \<le> normalIndex face ! 0)
              [0, 1, 2] this"
  from assms obtain mid where mid: "?c = Inr mid"
    unfolding expand_face_def Let_def by (cases ?c) simp_all
  have "mid = with_corners temp face this"
    by (rule expand_corners_face [OF mid])
  with assms mid show ?thesis
    unfolding expand_face_def Let_def has_both_def with_face_def
    by (auto simp del: push_tangents.simps expand_corners.simps One_nat_def split: if_splits)
qed

lemma push_tangents_same [simp]:
  "vertices (push_tangents tb ks this) = vertices this"
  "textureCoords (push_tangents tb ks this) = textureCoords this"
  "normals (push_tangents tb ks this) = normals this"
  "faces (push_tangents tb ks this) = faces this"
  by (induction tb ks this rule: push_tangents.induct) auto

lemma push_tangents_length [simp]:
  "length (tangents (push_tangents tb ks this)) = length (tangents this) + 3 * length ks"
  "length (bitangents (push_tangents tb ks this)) = length (bitangents this) + 3 * length ks"
  by (induction tb ks this rule: push_tangents.induct) auto

lemma with_face_buffers:
  "vertices (with_face F temp face this) = vertices this @ face_positions temp face"
  "textureCoords (with_face F temp face this) = textureCoords this @ face_texcoords temp face"
  "normals (with_face F temp face this) = normals this @ face_normals temp face"
  "faces (with_face F temp face this) = faces this"
  "length (tangents (with_face F temp face this)) =
     length (tangents this) + (if has_both face then 9 else 0)"
  "length (bitangents (with_face F temp face this)) =
     length (bitangents this) + (if has_both face then 9 else 0)"
  by (simp_all add: with_face_def with_corners_def del: push_tangents.simps)

lemma expand_Inr:
  "expand F temp fs this = Inr this1 \<Longrightarrow>
     vertices this1 = vertices this @ concat (map (face_positions temp) fs)
   \<and> textureCoords this1 = textureCoords this @ concat (map (face_texcoords temp) fs)
   \<and> normals this1 = normals this @ concat (map (face_normals temp) fs)
   \<and> length (tangents this1) = length (tangents this) + 9 * length (filter has_both fs)
   \<and> length (bitangents this1) = length (bitangents this) + 9 * length (filter has_both fs)
   \<and> faces this1 = faces this"
proof (induction fs arbitrary: this)
  case Nil
  then show ?case by simp
next
  case (Cons face fs)
  from Cons.prems obtain mid where
    m: "expand_face F temp face this = Inr mid" and r: "expand F temp fs mid = Inr this1"
    by (auto split: sum.splits)
  have mid: "mid = with_face F temp face this"
    by (rule expand_face_Inr [OF m])
  show ?case
    using Cons.IH [OF r] by (simp add: mid with_face_buffers)
qed

lemma length_concat_face_positions:
  "length (concat (map (face_positions temp) fs)) = 9 * length fs"
  by (induction fs) simp_all

subsection \<open>A source that cannot be opened\<close>

text \<open>
  C6. When the file cannot be opened, \<^verbatim>\<open>loadFromOBJFile\<close> writes the diagnostic
  "Unable to open obj file" and returns: the object, with its five buffers, is what it was
  before the call, whatever it was, and nothing else is written.
\<close>

theorem open_failure_leaves_object:
  assumes "fs filename = None"
  shows "loadFromOBJFile F fs filename this = Some (Inr (this, [UnableToOpen filename]))"
  using assms by (simp add: loadFromOBJFile_def)

theorem open_failure_leaves_object_witness:
  "no_files ''doggo.obj'' = None
   \<and> loadFromOBJFile symbolic no_files ''doggo.obj'' empty_geometry
       = Some (Inr (empty_geometry, [UnableToOpen ''doggo.obj'']))"
  using open_failure_leaves_object [of no_files "''doggo.obj''" symbolic empty_geometry]
  by (simp add: no_files_def)

subsection \<open>The examples, evaluated\<close>

lemma plain_parse: "parse_loop symbolic (initial plain_obj) = Some (Inr plain_parsed)"
  by code_simp

lemma plain_load:
  "loadFromOBJFile symbolic example_fs ''plain.obj'' empty_geometry
     = Some (Inr (plain_mesh, [Loaded 3]))"
  by code_simp

lemma plain_load_again:
  "loadFromOBJFile symbolic example_fs ''plain.obj'' plain_mesh
     = Some (Inr (append_buffers plain_mesh plain_mesh, [Loaded 6]))"
  by code_simp

lemma tri_parse: "parse_loop symbolic (initial tri_obj) = Some (Inr tri_parsed)"
  by code_simp

lemma tri_load:
  "loadFromOBJFile symbolic example_fs ''tri.obj'' empty_geometry
     = Some (Inr (tri_mesh, [Loaded 6]))"
  by code_simp

lemma tri_face_expand:
  "expand_face symbolic tri_pools (faces tri_pools ! 0) empty_geometry = Inr tri_face_mesh"
  by code_simp

lemma late_face_expand:
  "expand_face symbolic tri_pools late_face empty_geometry
     = Inr (empty_geometry\<lparr>vertices :=
              map Lit [''0'', ''0'', ''0'', ''1'', ''0'', ''0'', ''0'', ''1'', ''0'']\<rparr>)"
  by code_simp

subsection \<open>Three vertices for each face\<close>

text \<open>
  C3. When a load into a fresh object completes, \<^verbatim>\<open>vertexCount()\<close> is 3 times the number of
  faces the parsing loop recorded: the position sequence is, face by face and corner by corner,
  the 3 components at the corner's index in the position pool, 9 floats for a face, whether or
  not two corners name the same position.
\<close>

theorem vertexCount_three_per_face:
  assumes "fs filename = Some content"
    and "parse_loop F (initial content) = Some (Inr L)"
    and "loadFromOBJFile F fs filename empty_geometry = Some (Inr (this1, out))"
  shows "vertexCount this1 = 3 * length (faces (tempGeom L))
       \<and> length (vertices this1) = 9 * length (faces (tempGeom L))
       \<and> vertices this1 = concat (map (face_positions (tempGeom L)) (faces (tempGeom L)))"
proof -
  from assms have e: "expand F (tempGeom L) (faces (tempGeom L)) empty_geometry = Inr this1"
    by (auto simp: loadFromOBJFile_def split: sum.splits)
  have v: "vertices this1 = concat (map (face_positions (tempGeom L)) (faces (tempGeom L)))"
    using expand_Inr [OF e] by (simp add: empty_geometry_def)
  then have "length (vertices this1) = 9 * length (faces (tempGeom L))"
    by (simp add: length_concat_face_positions)
  with v show ?thesis by (simp add: vertexCount_def)
qed

theorem vertexCount_three_per_face_witness:
  "example_fs ''plain.obj'' = Some plain_obj
   \<and> parse_loop symbolic (initial plain_obj) = Some (Inr plain_parsed)
   \<and> loadFromOBJFile symbolic example_fs ''plain.obj'' empty_geometry
       = Some (Inr (plain_mesh, [Loaded 3]))
   \<and> length (faces (tempGeom plain_parsed)) = 1
   \<and> vertexCount plain_mesh = 3
   \<and> length (vertices plain_mesh) = 9"
proof -
  have f: "example_fs ''plain.obj'' = Some plain_obj"
    by (simp add: example_fs_def)
  have n: "length (faces (tempGeom plain_parsed)) = 1"
    by (simp add: plain_parsed_def)
  note t = vertexCount_three_per_face [OF f plain_parse plain_load]
  from t have "vertexCount plain_mesh = 3 * length (faces (tempGeom plain_parsed))"
    by (rule conjunct1)
  moreover from t
  have "length (vertices plain_mesh) = 9 * length (faces (tempGeom plain_parsed))"
    by blast
  ultimately have "vertexCount plain_mesh = 3 \<and> length (vertices plain_mesh) = 9"
    by (simp add: n)
  with f n plain_parse plain_load show ?thesis by simp
qed

subsection \<open>Corner 0 decides what a face has\<close>

text \<open>
  C4. Whether a face gets texture coordinates, and whether it gets normals, is read from the
  indices of corner 0 alone. When the index of corner 0 is negative the face adds nothing to
  the sequence, whatever the indices of corners 1 and 2 are; when it is not, the face adds the
  components of all three corners, 2 for each texture coordinate and 3 for each normal. (The
  expansion of the face is assumed to read inside the pools.)
\<close>

theorem corner_0_decides_presence:
  assumes "expand_face F temp face this = Inr this1"
  shows "(texCoordIndex face ! 0 < 0 \<longrightarrow> textureCoords this1 = textureCoords this)
       \<and> (0 \<le> texCoordIndex face ! 0 \<longrightarrow>
            textureCoords this1 = textureCoords this
              @ concat (map (\<lambda>k. [textureCoords temp ! nat (2 * (texCoordIndex face ! k)),
                                    textureCoords temp ! nat (2 * (texCoordIndex face ! k) + 1)])
                            [0, 1, 2]))
       \<and> (normalIndex face ! 0 < 0 \<longrightarrow> normals this1 = normals this)
       \<and> (0 \<le> normalIndex face ! 0 \<longrightarrow>
            normals this1 = normals this
              @ concat (map (\<lambda>k. [normals temp ! nat (3 * (normalIndex face ! k)),
                                    normals temp ! nat (3 * (normalIndex face ! k) + 1),
                                    normals temp ! nat (3 * (normalIndex face ! k) + 2)])
                            [0, 1, 2]))"
  using expand_face_Inr [OF assms]
  by (simp add: with_face_buffers face_texcoords_def face_normals_def pool_values_def)

theorem corner_0_decides_presence_witness:
  "expand_face symbolic tri_pools late_face empty_geometry
     = Inr (empty_geometry\<lparr>vertices :=
              map Lit [''0'', ''0'', ''0'', ''1'', ''0'', ''0'', ''0'', ''1'', ''0'']\<rparr>)
   \<and> texCoordIndex late_face ! 0 < 0 \<and> 0 \<le> texCoordIndex late_face ! 1
   \<and> 0 \<le> texCoordIndex late_face ! 2
   \<and> normalIndex late_face ! 0 < 0 \<and> 0 \<le> normalIndex late_face ! 1
   \<and> 0 \<le> normalIndex late_face ! 2
   \<and> textureCoords (empty_geometry\<lparr>vertices :=
        map Lit [''0'', ''0'', ''0'', ''1'', ''0'', ''0'', ''0'', ''1'', ''0'']\<rparr>) = []
   \<and> normals (empty_geometry\<lparr>vertices :=
        map Lit [''0'', ''0'', ''0'', ''1'', ''0'', ''0'', ''0'', ''1'', ''0'']\<rparr>) = []"
  using corner_0_decides_presence [OF late_face_expand] late_face_expand
  by (simp add: late_face_def empty_geometry_def)

subsection \<open>One tangent and one bitangent for a face\<close>

lemma face_tangents_spec:
  assumes "length (vertices g) = n + 9" and "length (textureCoords g) = m + 6"
  shows "face_tangents F g =
           spec_tangent_space F (triple_at (vertices g) n) (triple_at (vertices g) (n + 3))
             (triple_at (vertices g) (n + 6))
             (pair_at (textureCoords g) m) (pair_at (textureCoords g) (m + 2))
             (pair_at (textureCoords g) (m + 4))"
  using assms
  by (simp add: face_tangents_def spec_tangent_space_def Let_def vsub_def vscale_def
        normalize_def triple_at_def pair_at_def eval_nat_numeral)

text \<open>
  C5. A face that has texture coordinates and normals (by the test on corner 0) appends 9
  positions and 6 texture coordinates, and from these, as the three points \<open>P0, P1, P2\<close> and
  their \<open>UV0, UV1, UV2\<close>, one tangent and one bitangent by the formula of section 4.2 of the
  specification, both divided by their length; the same triple is appended for each of the 3
  corners, 9 tangent floats and 9 bitangent floats. The arithmetic is that of the float
  operations, whichever they are.
\<close>

theorem one_tangent_pair_per_face:
  assumes "expand_face F temp face this = Inr this1" and "has_both face"
  shows "vertices this1 = vertices this @ face_positions temp face
       \<and> textureCoords this1 = textureCoords this @ face_texcoords temp face
       \<and> length (face_positions temp face) = 9 \<and> length (face_texcoords temp face) = 6
       \<and> (case spec_tangent_space F
                 (triple_at (face_positions temp face) 0) (triple_at (face_positions temp face) 3)
                 (triple_at (face_positions temp face) 6)
                 (pair_at (face_texcoords temp face) 0) (pair_at (face_texcoords temp face) 2)
                 (pair_at (face_texcoords temp face) 4) of
            ((tx, ty, tz), (bx, by, bz)) \<Rightarrow>
              tangents this1 = tangents this @ [tx, ty, tz, tx, ty, tz, tx, ty, tz]
            \<and> bitangents this1 = bitangents this @ [bx, by, bz, bx, by, bz, bx, by, bz])"
proof -
  let ?mid = "with_corners temp face this"
  let ?n = "length (vertices this)" and ?m = "length (textureCoords this)"
  have this1: "this1 = push_tangents (face_tangents F ?mid) [0, 1, 2] ?mid"
    using expand_face_Inr [OF assms(1)] assms(2) by (simp add: with_face_def)
  have lt: "length (face_texcoords temp face) = 6"
    using assms(2) by (simp add: length_face_texcoords has_both_def)
  have lv: "length (vertices ?mid) = ?n + 9" and lu: "length (textureCoords ?mid) = ?m + 6"
    by (simp_all add: with_corners_def lt)
  have ft: "face_tangents F ?mid =
          spec_tangent_space F
                 (triple_at (face_positions temp face) 0) (triple_at (face_positions temp face) 3)
                 (triple_at (face_positions temp face) 6)
                 (pair_at (face_texcoords temp face) 0) (pair_at (face_texcoords temp face) 2)
                 (pair_at (face_texcoords temp face) 4)"
    unfolding face_tangents_spec [OF lv lu]
    by (simp add: with_corners_def triple_at_def pair_at_def nth_append eval_nat_numeral)
  obtain tx ty tz bx "by" bz where tb: "face_tangents F ?mid = ((tx, ty, tz), (bx, by, bz))"
    by (metis prod_cases3)
  show ?thesis
    unfolding this1 ft [symmetric] tb
    by (simp add: with_corners_def lt)
qed


theorem one_tangent_pair_per_face_witness:
  "expand_face symbolic tri_pools (faces tri_pools ! 0) empty_geometry = Inr tri_face_mesh
   \<and> has_both (faces tri_pools ! 0)
   \<and> (case tri_tangent_space of
        ((tx, ty, tz), (bx, by, bz)) \<Rightarrow>
           tangents tri_face_mesh = [tx, ty, tz, tx, ty, tz, tx, ty, tz]
         \<and> bitangents tri_face_mesh = [bx, by, bz, bx, by, bz, bx, by, bz])"
proof -
  have b: "has_both (faces tri_pools ! 0)"
    by (simp add: has_both_def tri_pools_def)
  have p: "face_positions tri_pools (faces tri_pools ! 0)
             = map Lit [''0'', ''0'', ''0'', ''1'', ''0'', ''0'', ''0'', ''1'', ''0'']"
    by code_simp
  have t: "face_texcoords tri_pools (faces tri_pools ! 0)
             = map Lit [''0'', ''0'', ''1'', ''0'', ''0'', ''1'']"
    by code_simp
  from one_tangent_pair_per_face [OF tri_face_expand b]
  have "case tri_tangent_space of
        ((tx, ty, tz), (bx, by, bz)) \<Rightarrow>
           tangents tri_face_mesh = [tx, ty, tz, tx, ty, tz, tx, ty, tz]
         \<and> bitangents tri_face_mesh = [bx, by, bz, bx, by, bz, bx, by, bz]"
    unfolding p t
    by (simp add: tri_tangent_space_def triple_at_def pair_at_def empty_geometry_def)
  with tri_face_expand b show ?thesis by simp
qed

subsection \<open>A second load appends\<close>

lemma append_buffers_empty [simp]: "append_buffers a empty_geometry = a"
  by (simp add: append_buffers_def empty_geometry_def)

lemma append_buffers_sel [simp]:
  "vertices (append_buffers a b) = vertices a @ vertices b"
  "textureCoords (append_buffers a b) = textureCoords a @ textureCoords b"
  "normals (append_buffers a b) = normals a @ normals b"
  "tangents (append_buffers a b) = tangents a @ tangents b"
  "bitangents (append_buffers a b) = bitangents a @ bitangents b"
  "faces (append_buffers a b) = faces a"
  by (simp_all add: append_buffers_def)

lemma expand_corner_append:
  "expand_corner temp face hasT hasN k (append_buffers a b) =
     map_sum id (append_buffers a) (expand_corner temp face hasT hasN k b)"
  by (simp add: expand_corner_def append_buffers_def del: copy_from.simps split: sum.splits)

lemma expand_corners_append:
  "expand_corners temp face hasT hasN ks (append_buffers a b) =
     map_sum id (append_buffers a) (expand_corners temp face hasT hasN ks b)"
proof (induction ks arbitrary: b)
  case Nil
  then show ?case by simp
next
  case (Cons k ks)
  show ?case
    by (cases "expand_corner temp face hasT hasN k b")
       (simp_all add: expand_corner_append Cons.IH)
qed

lemma face_tangents_append:
  assumes "9 \<le> length (vertices b)" and "6 \<le> length (textureCoords b)"
  shows "face_tangents F (append_buffers a b) = face_tangents F b"
proof -
  have v: "vertices (append_buffers a b) ! (length (vertices (append_buffers a b)) - 9 + j)
              = vertices b ! (length (vertices b) - 9 + j)" for j
  proof -
    have "length (vertices (append_buffers a b)) - 9 + j
            = length (vertices a) + (length (vertices b) - 9 + j)"
      using assms(1) by simp
    then show ?thesis by (simp only: append_buffers_sel nth_append_length_plus)
  qed
  have t: "textureCoords (append_buffers a b)
                  ! (length (textureCoords (append_buffers a b)) - 6 + j)
              = textureCoords b ! (length (textureCoords b) - 6 + j)" for j
  proof -
    have "length (textureCoords (append_buffers a b)) - 6 + j
            = length (textureCoords a) + (length (textureCoords b) - 6 + j)"
      using assms(2) by simp
    then show ?thesis by (simp only: append_buffers_sel nth_append_length_plus)
  qed
  show ?thesis
    by (simp only: face_tangents_def Let_def v t)
qed

lemma append_buffers_push:
  "(append_buffers a b)\<lparr>tangents := tangents a @ tangents b @ t,
                          bitangents := bitangents a @ bitangents b @ u\<rparr>
     = append_buffers a (b\<lparr>tangents := tangents b @ t, bitangents := bitangents b @ u\<rparr>)"
  by (simp add: append_buffers_def)

lemma push_tangents_append:
  "push_tangents tb ks (append_buffers a b) = append_buffers a (push_tangents tb ks b)"
proof -
  obtain tx ty tz bx "by" bz where tb: "tb = ((tx, ty, tz), (bx, by, bz))"
    by (metis prod_cases3)
  show ?thesis
    unfolding tb by (induction ks arbitrary: b) (simp_all add: append_buffers_push)
qed

lemma expand_face_append:
  "expand_face F temp face (append_buffers a b) =
     map_sum id (append_buffers a) (expand_face F temp face b)"
proof (cases "expand_corners temp face (0 \<le> texCoordIndex face ! 0) (0 \<le> normalIndex face ! 0)
               [0, 1, 2] b")
  case (Inl e)
  then show ?thesis
    unfolding expand_face_def Let_def expand_corners_append by simp
next
  case (Inr mid)
  have mid: "mid = with_corners temp face b"
    by (rule expand_corners_face [OF Inr])
  have "has_both face \<Longrightarrow> face_tangents F (append_buffers a mid) = face_tangents F mid"
    by (rule face_tangents_append)
       (simp_all add: mid with_corners_def length_face_texcoords has_both_def)
  then show ?thesis
    unfolding expand_face_def Let_def expand_corners_append Inr
    by (simp add: push_tangents_append has_both_def del: push_tangents.simps)
qed

lemma expand_append:
  "expand F temp fs (append_buffers a b) = map_sum id (append_buffers a) (expand F temp fs b)"
proof (induction fs arbitrary: b)
  case Nil
  then show ?case by simp
next
  case (Cons face fs)
  show ?case
    by (cases "expand_face F temp face b") (simp_all add: expand_face_append Cons.IH)
qed

lemma expand_from_empty:
  "expand F temp fs this = map_sum id (append_buffers this) (expand F temp fs empty_geometry)"
  using expand_append [of F temp fs this empty_geometry] by simp

lemma load_from_empty:
  assumes "loadFromOBJFile F fs filename this = Some (Inr (this1, out))"
  shows "\<exists>d out0. loadFromOBJFile F fs filename empty_geometry = Some (Inr (d, out0))
                  \<and> this1 = append_buffers this d \<and> 3 dvd length (vertices d)"
proof (cases "fs filename")
  case None
  with assms show ?thesis
    by (auto simp: loadFromOBJFile_def empty_geometry_def)
next
  case (Some content)
  with assms obtain L where
    p: "parse_loop F (initial content) = Some (Inr L)"
    and e: "expand F (tempGeom L) (faces (tempGeom L)) this = Inr this1"
    by (auto simp: loadFromOBJFile_def split: option.splits sum.splits)
  from e obtain d where
    d: "expand F (tempGeom L) (faces (tempGeom L)) empty_geometry = Inr d"
    and a: "this1 = append_buffers this d"
    by (subst (asm) expand_from_empty)
       (cases "expand F (tempGeom L) (faces (tempGeom L)) empty_geometry", auto)
  have "length (vertices d) = 9 * length (faces (tempGeom L))"
    using expand_Inr [OF d] by (simp add: empty_geometry_def length_concat_face_positions)
  then have "3 dvd length (vertices d)" by simp
  with Some p d a show ?thesis
    by (auto simp: loadFromOBJFile_def)
qed

text \<open>
  C9. \<^verbatim>\<open>loadFromOBJFile\<close> clears none of the five buffers. After a load into a fresh
  object and a second load into the same object, each buffer is what the first load left
  followed by what the second file gives when loaded alone, and \<^verbatim>\<open>vertexCount()\<close> is the
  sum of the vertex counts of the two meshes.
\<close>

theorem second_load_appends:
  assumes "loadFromOBJFile F fs file1 empty_geometry = Some (Inr (g1, out1))"
    and "loadFromOBJFile F fs file2 g1 = Some (Inr (g2, out2))"
  shows "\<exists>d out0. loadFromOBJFile F fs file2 empty_geometry = Some (Inr (d, out0))
           \<and> vertices g2 = vertices g1 @ vertices d
           \<and> textureCoords g2 = textureCoords g1 @ textureCoords d
           \<and> normals g2 = normals g1 @ normals d
           \<and> tangents g2 = tangents g1 @ tangents d
           \<and> bitangents g2 = bitangents g1 @ bitangents d
           \<and> vertexCount g2 = vertexCount g1 + vertexCount d"
proof -
  from load_from_empty [OF assms(1)] have g1: "3 dvd length (vertices g1)"
    by (auto simp: empty_geometry_def append_buffers_def)
  from load_from_empty [OF assms(2)] obtain d out0 where
    d: "loadFromOBJFile F fs file2 empty_geometry = Some (Inr (d, out0))"
    and a: "g2 = append_buffers g1 d" and d3: "3 dvd length (vertices d)"
    by blast
  have "vertexCount g2 = vertexCount g1 + vertexCount d"
    using g1 d3 by (simp add: a vertexCount_def div_add)
  with d a show ?thesis by auto
qed

theorem second_load_appends_witness:
  "loadFromOBJFile symbolic example_fs ''plain.obj'' empty_geometry
     = Some (Inr (plain_mesh, [Loaded 3]))
   \<and> loadFromOBJFile symbolic example_fs ''plain.obj'' plain_mesh
     = Some (Inr (append_buffers plain_mesh plain_mesh, [Loaded 6]))
   \<and> vertexCount plain_mesh = 3
   \<and> vertexCount (append_buffers plain_mesh plain_mesh) = 6"
proof -
  from second_load_appends [OF plain_load plain_load_again]
  have "vertexCount (append_buffers plain_mesh plain_mesh)
          = vertexCount plain_mesh + vertexCount plain_mesh"
    by (simp add: plain_load)
  moreover have "vertexCount plain_mesh = 3"
    by (simp add: vertexCount_def plain_mesh_def)
  ultimately show ?thesis using plain_load plain_load_again by simp
qed


subsection \<open>The lengths of the tangent and bitangent sequences\<close>

text \<open>
  C10. A load appends 9 floats to the tangent sequence and 9 to the bitangent sequence for
  each recorded face that has texture coordinates and normals, and nothing for the other
  faces. So the two sequences stay of one length, a multiple of 9, through every load of an
  object, after a load into a fresh object this length is 9 times the number of those faces,
  and it is at most the length of the position sequence.
\<close>

theorem tangent_lengths:
  assumes "fs filename = Some content"
    and "parse_loop F (initial content) = Some (Inr L)"
    and "loadFromOBJFile F fs filename this = Some (Inr (this1, out))"
    and "length (tangents this) = length (bitangents this)"
    and "9 dvd length (tangents this)"
  shows "length (tangents this1) = length (bitangents this1)
       \<and> 9 dvd length (tangents this1)
       \<and> length (tangents this1)
           = length (tangents this) + 9 * length (filter has_both (faces (tempGeom L)))
       \<and> (this = empty_geometry \<longrightarrow>
            length (tangents this1) = 9 * length (filter has_both (faces (tempGeom L)))
          \<and> length (tangents this1) \<le> length (vertices this1))"
proof -
  from assms(1-3) have e: "expand F (tempGeom L) (faces (tempGeom L)) this = Inr this1"
    by (auto simp: loadFromOBJFile_def split: sum.splits)
  note x = expand_Inr [OF e]
  have "length (filter has_both (faces (tempGeom L))) \<le> length (faces (tempGeom L))"
    by simp
  then show ?thesis
    using x assms(4,5)
    by (auto simp: empty_geometry_def length_concat_face_positions)
qed

theorem tangent_lengths_witness:
  "example_fs ''tri.obj'' = Some tri_obj
   \<and> parse_loop symbolic (initial tri_obj) = Some (Inr tri_parsed)
   \<and> loadFromOBJFile symbolic example_fs ''tri.obj'' empty_geometry
       = Some (Inr (tri_mesh, [Loaded 6]))
   \<and> length (faces (tempGeom tri_parsed)) = 2
   \<and> length (filter has_both (faces (tempGeom tri_parsed))) = 1
   \<and> length (tangents tri_mesh) = 9 \<and> length (bitangents tri_mesh) = 9
   \<and> length (vertices tri_mesh) = 18"
proof -
  have f: "example_fs ''tri.obj'' = Some tri_obj"
    by (simp add: example_fs_def)
  have n: "length (faces (tempGeom tri_parsed)) = 2"
    and b: "length (filter has_both (faces (tempGeom tri_parsed))) = 1"
    by (simp_all add: tri_parsed_def tri_pools_def has_both_def)
  have v: "length (vertices tri_mesh) = 18"
    by (simp add: tri_mesh_def tri_face_mesh_def plain_mesh_def split: prod.splits)
  from tangent_lengths [OF f tri_parse tri_load] b
  have "length (tangents tri_mesh) = 9 \<and> length (bitangents tri_mesh) = 9"
    by (simp add: empty_geometry_def)
  with f n b v tri_parse tri_load show ?thesis by simp
qed

subsection \<open>Face lines\<close>

lemma digit_cases:
  "d < 10 \<Longrightarrow> d = 0 \<or> d = 1 \<or> d = 2 \<or> d = 3 \<or> d = 4 \<or> d = 5 \<or> d = 6 \<or> d = 7 \<or> d = 8 \<or> d = (9::nat)"
  by arith

lemma digit_char:
  assumes "d < 10"
  shows "isdigit (''0123456789'' ! d)" and "int (of_char (''0123456789'' ! d)) - 48 = int d"
  using digit_cases [OF assms] by (auto simp: isdigit_def)

lemma show_nat_digits: "\<forall>c \<in> set (show_nat n). isdigit c"
proof (induction n rule: show_nat.induct)
  case (1 n)
  show ?case
  proof (cases "n < 10")
    case True
    then show ?thesis by (simp add: show_nat.simps [of n] digit_char)
  next
    case False
    with 1 show ?thesis by (simp add: show_nat.simps [of n] digit_char)
  qed
qed

lemma show_nat_nonempty [simp]: "show_nat n \<noteq> []"
  by (subst show_nat.simps) simp

lemma dec_value_snoc: "dec_value (ds @ [c]) = 10 * dec_value ds + (int (of_char c) - 48)"
  by (simp add: dec_value_def)

lemma dec_value_show_nat: "dec_value (show_nat n) = int n"
proof (induction n rule: show_nat.induct)
  case (1 n)
  show ?case
  proof (cases "n < 10")
    case True
    then show ?thesis
      using dec_value_snoc [of "[]"] by (simp add: show_nat.simps [of n] digit_char dec_value_def)
  next
    case False
    with 1 have "dec_value (show_nat (n div 10)) = int (n div 10)" by simp
    with False show ?thesis
      by (simp add: show_nat.simps [of n] dec_value_snoc digit_char zdiv_int zmod_int)
  qed
qed

lemma isspace_not_digit: "isspace c \<Longrightarrow> \<not> isdigit c"
  by (auto simp: isspace_def isdigit_def)

lemma isdigit_not_space: "isdigit c \<Longrightarrow> \<not> isspace c"
  by (auto simp: isspace_def isdigit_def)

lemma isdigit_not_sign: "isdigit c \<Longrightarrow> c \<noteq> CHR ''-'' \<and> c \<noteq> CHR ''+'' \<and> c \<noteq> CHR ''/''"
  by (auto simp: isdigit_def)

lemma stream_at_sel [simp]:
  "rest (stream_at r pb) = r" "pback (stream_at r pb) = pb"
  "eofbit (stream_at r pb) = False" "failbit (stream_at r pb) = False"
  by (simp_all add: stream_at_def)

lemma good_stream_at [simp]: "good (stream_at r pb)"
  by (simp add: good_def)

lemma consume_stream_at:
  "consume p (stream_at (p @ r) pb) = stream_at r (if p = [] then pb else Some (last p))"
  by (simp add: consume_def stream_at_def)

lemma get_stream_at [simp]: "get (stream_at (c # r) pb) = (Some c, stream_at r (Some c))"
  by (simp add: get_def stream_at_def good_def)

lemma unget_stream_at [simp]: "unget (stream_at r (Some c)) = stream_at (c # r) None"
  by (simp add: unget_def Let_def stream_at_def)

lemma sentry_skips:
  assumes "\<forall>y \<in> set pre. isspace y" and "\<not> isspace c"
  shows "sentry (stream_at (pre @ c # r) pb)
           = (True, stream_at (c # r) (if pre = [] then pb else Some (last pre)))"
proof -
  have "takeWhile isspace (pre @ c # r) = pre"
    using assms by (simp add: takeWhile_append2)
  then show ?thesis
    using consume_stream_at [of pre "c # r" pb] by (simp add: sentry_def)
qed

lemma read_int_show:
  assumes "\<forall>y \<in> set pre. isspace y" and "\<not> isdigit c" and "int p \<le> INT_MAX"
  shows "read_int v (stream_at (pre @ show_nat p @ c # r) pb)
           = (int p, stream_at (c # r) (Some (last (show_nat p))))"
proof -
  let ?ds = "show_nat p"
  obtain d ds where ds: "?ds = d # ds"
    using show_nat_nonempty [of p] by (cases "show_nat p") auto
  have dig: "\<forall>y \<in> set ?ds. isdigit y"
    by (rule show_nat_digits)
  then have d: "isdigit d" by (simp add: ds)
  let ?pb = "if pre = [] then pb else Some (last pre)"
  have s: "sentry (stream_at (pre @ ?ds @ c # r) pb) = (True, stream_at (?ds @ c # r) ?pb)"
    using sentry_skips [OF assms(1), of d "ds @ c # r" pb] d by (simp add: ds isdigit_not_space)
  have sg: "sign_prefix (?ds @ c # r) = []"
    using isdigit_not_sign [OF d] by (simp add: sign_prefix_def ds)
  have tw: "takeWhile isdigit (?ds @ c # r) = ?ds"
    using dig assms(2) takeWhile_append2 [of ?ds isdigit "c # r"] by simp
  have lo: "\<not> int p < INT_MIN" by (simp add: INT_MIN_def)
  show ?thesis
    using assms(3) lo
    by (simp add: read_int_def s sg tw dec_value_show_nat Let_def consume_stream_at)
qed

lemma show_nat_hd: "\<exists>d ds. show_nat p = d # ds \<and> isdigit d"
  using show_nat_digits [of p] show_nat_nonempty [of p] by (cases "show_nat p") auto

lemma isspace_not_slash: "isspace x \<Longrightarrow> x \<noteq> CHR ''/''"
  by (auto simp: isspace_def)

lemma read_corner_show:
  assumes pre: "\<forall>y \<in> set pre. isspace y" and x: "isspace x" and fits: "corner_fits c"
  shows "read_corner vars (stream_at (pre @ show_corner c @ x # r) pb)
           = (corner_vars vars c, after_corner c x r)"
proof -
  obtain v t n where vars: "vars = (v, t, n)" by (cases vars) auto
  note nd = isspace_not_digit [OF x] and ns = isspace_not_slash [OF x]
  have slash: "\<not> isdigit (CHR ''/'')" by (simp add: isdigit_def)
  show ?thesis
  proof (cases c)
    case (V p)
    with fits show ?thesis
      using read_int_show [OF pre nd, of p v r pb]
      by (simp add: read_corner_def vars ns after_corner_def)
  next
    case (VT p t1)
    obtain d ds where d: "show_nat t1 = d # ds" "isdigit d"
      using show_nat_hd by blast
    have 1: "read_int v (stream_at (pre @ show_nat p @ CHR ''/'' # d # ds @ x # r) pb)
               = (int p, stream_at (CHR ''/'' # d # ds @ x # r) (Some (last (show_nat p))))"
      using VT fits read_int_show [OF pre slash, of p v "show_nat t1 @ x # r" pb]
      by (simp add: d)
    have 2: "read_int t (stream_at (d # ds @ x # r) None)
               = (int t1, stream_at (x # r) (Some (last (d # ds))))"
      using VT fits read_int_show [of "[]" x t1 t r None] nd by (simp add: d)
    show ?thesis
      using isdigit_not_sign [OF d(2)]
      by (simp add: read_corner_def vars VT 1 2 d ns after_corner_def)
  next
    case (VN p n1)
    have 1: "read_int v (stream_at (pre @ show_nat p @ CHR ''/'' # CHR ''/'' # show_nat n1 @ x # r) pb)
               = (int p, stream_at (CHR ''/'' # CHR ''/'' # show_nat n1 @ x # r)
                          (Some (last (show_nat p))))"
      using VN fits by (intro read_int_show [OF pre slash]) simp
    have 2: "read_int n (stream_at (show_nat n1 @ x # r) (Some CHR ''/''))
               = (int n1, stream_at (x # r) (Some (last (show_nat n1))))"
      using VN fits read_int_show [of "[]" x n1 n r "Some CHR ''/''"] nd by simp
    show ?thesis
      by (simp add: read_corner_def vars VN 1 2 after_corner_def)
  next
    case (VTN p t1 n1)
    obtain d ds where d: "show_nat t1 = d # ds" "isdigit d"
      using show_nat_hd by blast
    have 1: "read_int v (stream_at (pre @ show_nat p @ CHR ''/'' # d # ds @ CHR ''/''
                                    # show_nat n1 @ x # r) pb)
               = (int p, stream_at (CHR ''/'' # d # ds @ CHR ''/'' # show_nat n1 @ x # r)
                          (Some (last (show_nat p))))"
      using VTN fits
        read_int_show [OF pre slash, of p v "show_nat t1 @ CHR ''/'' # show_nat n1 @ x # r" pb]
      by (simp add: d)
    have 2: "read_int t (stream_at (d # ds @ CHR ''/'' # show_nat n1 @ x # r) None)
               = (int t1, stream_at (CHR ''/'' # show_nat n1 @ x # r) (Some (last (d # ds))))"
      using VTN fits read_int_show [of "[]" "CHR ''/''" t1 t "show_nat n1 @ x # r" None] slash
      by (simp add: d)
    have 3: "read_int n (stream_at (show_nat n1 @ x # r) (Some CHR ''/''))
               = (int n1, stream_at (x # r) (Some (last (show_nat n1))))"
      using VTN fits read_int_show [of "[]" x n1 n r "Some CHR ''/''"] nd by simp
    show ?thesis
      using isdigit_not_sign [OF d(2)]
      by (simp add: read_corner_def vars VTN 1 2 3 d after_corner_def)
  qed
qed

lemma corner_vars_nonneg: "nonneg3 vars \<Longrightarrow> nonneg3 (corner_vars vars c)"
  by (cases vars; cases c) (auto simp: nonneg3_def)

lemma store_corner_nonneg:
  "nonneg3 vars \<Longrightarrow>
   store_corner k vars face =
     Inr (face\<lparr>vertexIndex := (vertexIndex face)[k := fst vars - 1],
               texCoordIndex := (texCoordIndex face)[k := fst (snd vars) - 1],
               normalIndex := (normalIndex face)[k := snd (snd vars) - 1]\<rparr>)"
  by (cases vars) (auto simp: store_corner_def nonneg3_def INT_MIN_def)

lemma corner_left_space: "isspace x \<Longrightarrow> \<forall>y \<in> set (corner_left c x). isspace y"
  by (cases c) auto

lemma face_corners_show:
  assumes sep: "\<forall>y \<in> set sep0. isspace y" "\<forall>y \<in> set sep1. isspace y" "\<forall>y \<in> set sep2. isspace y"
    and x: "isspace x0" "isspace x1" "isspace x2"
    and fits: "corner_fits c0" "corner_fits c1" "corner_fits c2"
  shows "face_corners [0, 1, 2] (0, 0, 0)
           \<lparr>vertexIndex = [0, 0, 0], texCoordIndex = [0, 0, 0], normalIndex = [0, 0, 0]\<rparr>
           (stream_at (sep0 @ show_corner c0 @ x0 # sep1 @ show_corner c1 @ x1 # sep2
                       @ show_corner c2 @ x2 # r) pb)
         = Inr (face_of c0 c1 c2, after_corner c2 x2 r)"
proof -
  let ?v0 = "corner_vars (0, 0, 0) c0"
  let ?v1 = "corner_vars ?v0 c1"
  let ?v2 = "corner_vars ?v1 c2"
  have n0: "nonneg3 ?v0" by (rule corner_vars_nonneg) (simp add: nonneg3_def)
  then have n1: "nonneg3 ?v1" by (rule corner_vars_nonneg)
  then have n2: "nonneg3 ?v2" by (rule corner_vars_nonneg)
  have r0: "read_corner (0, 0, 0)
              (stream_at (sep0 @ show_corner c0 @ x0 # sep1 @ show_corner c1 @ x1 # sep2
                          @ show_corner c2 @ x2 # r) pb)
            = (?v0, stream_at (corner_left c0 x0 @ sep1 @ show_corner c1 @ x1 # sep2
                               @ show_corner c2 @ x2 # r) (corner_pback c0 x0))"
    using read_corner_show [OF sep(1) x(1) fits(1)] by (simp add: after_corner_def)
  have p1: "\<forall>y \<in> set (corner_left c0 x0 @ sep1). isspace y"
    using corner_left_space [OF x(1), of c0] sep(2) by auto
  have r1: "read_corner ?v0
              (stream_at (corner_left c0 x0 @ sep1 @ show_corner c1 @ x1 # sep2
                          @ show_corner c2 @ x2 # r) (corner_pback c0 x0))
            = (?v1, stream_at (corner_left c1 x1 @ sep2 @ show_corner c2 @ x2 # r)
                      (corner_pback c1 x1))"
    using read_corner_show [OF p1 x(2) fits(2)] by (simp add: after_corner_def)
  have p2: "\<forall>y \<in> set (corner_left c1 x1 @ sep2). isspace y"
    using corner_left_space [OF x(2), of c1] sep(3) by auto
  have r2: "read_corner ?v1
              (stream_at (corner_left c1 x1 @ sep2 @ show_corner c2 @ x2 # r)
                 (corner_pback c1 x1))
            = (?v2, after_corner c2 x2 r)"
    using read_corner_show [OF p2 x(3) fits(3)] by simp
  show ?thesis
    by (simp add: r0 r1 r2 store_corner_nonneg [OF n0] store_corner_nonneg [OF n1]
          store_corner_nonneg [OF n2] face_of_def Let_def)
qed

lemma comment_skips_line:
  assumes "currentDataType L = COMMENT" and "inStream L = stream_at (xs @ CHR 0x0A # tail) pb"
    and "CHR 0x0A \<notin> set xs"
  shows "parse_loop F L
           = parse_loop F (L\<lparr>inStream := stream_at tail (Some (CHR 0x0A)),
                              currentDataType := NONE\<rparr>)"
  using assms
proof (induction xs arbitrary: L pb)
  case Nil
  then show ?case
    by (subst parse_loop.simps) (simp add: step_def step_COMMENT_def)
next
  case (Cons c xs)
  let ?L1 = "L\<lparr>inStream := stream_at (xs @ CHR 0x0A # tail) (Some c)\<rparr>"
  from Cons.prems have c: "c \<noteq> CHR 0x0A" by auto
  have "parse_loop F L = parse_loop F ?L1"
    using Cons.prems c by (subst parse_loop.simps) (simp add: step_def step_COMMENT_def)
  also have "\<dots> = parse_loop F (?L1\<lparr>inStream := stream_at tail (Some (CHR 0x0A)),
                                      currentDataType := NONE\<rparr>)"
    using Cons.prems by (intro Cons.IH) simp_all
  finally show ?case by simp
qed

lemma isblank_space: "isblank c \<Longrightarrow> isspace c"
  by (auto simp: isblank_def isspace_def)

lemma isblank_not_newline: "isblank c \<Longrightarrow> c \<noteq> CHR 0x0A"
  by (auto simp: isblank_def)

lemma isdigit_not_newline: "isdigit c \<Longrightarrow> c \<noteq> CHR 0x0A"
  by (auto simp: isdigit_def)

lemma show_nat_no_newline: "CHR 0x0A \<notin> set (show_nat n)"
  using show_nat_digits [of n] isdigit_not_newline by blast

lemma show_corner_no_newline: "CHR 0x0A \<notin> set (show_corner c)"
  by (cases c) (simp_all add: show_nat_no_newline)

lemma corner_vars_position: "fst (corner_vars vars c) = int (position_of c)"
  by (cases vars; cases c) auto

lemma corner_vars_texture: "texture_of c = Some t \<Longrightarrow> fst (snd (corner_vars vars c)) = int t"
  by (cases vars; cases c) auto

lemma corner_vars_normal: "normal_of c = Some n \<Longrightarrow> snd (snd (corner_vars vars c)) = int n"
  by (cases vars; cases c) auto

lemma upto_3: "k < 3 \<Longrightarrow> k = 0 \<or> k = 1 \<or> k = (2::nat)"
  by arith

lemma step_FACE_show:
  assumes "currentDataType L = FACE"
    and "inStream L = stream_at (sep0 @ show_corner c0 @ x0 # sep1 @ show_corner c1 @ x1 # sep2
                                 @ show_corner c2 @ x2 # r) pb"
    and sep: "\<forall>y \<in> set sep0. isspace y" "\<forall>y \<in> set sep1. isspace y" "\<forall>y \<in> set sep2. isspace y"
    and x: "isspace x0" "isspace x1" "isspace x2"
    and fits: "corner_fits c0" "corner_fits c1" "corner_fits c2"
  shows "step F L = Inr (L\<lparr>inStream := after_corner c2 x2 r,
                           tempGeom := (tempGeom L)\<lparr>faces := faces (tempGeom L)
                                                      @ [face_of c0 c1 c2]\<rparr>,
                           currentDataType := COMMENT\<rparr>)"
  using assms(1,2) face_corners_show [OF sep x fits, of r pb]
  by (simp add: step_def step_FACE_def)

text \<open>
  C7. The corner loop stores, for each of the three corners of a face line, the position
  index of the line minus 1, and for each texture-coordinate or normal index the line gives,
  that index minus 1. The expansion of the face copies, for each corner, the components of
  the position pool at 3 times the stored index, and the two after it. The line
  \<^verbatim>\<open>f 1 2 3\<close> stores the indices 0, 1, 2.
\<close>

theorem stored_indices_are_one_less:
  assumes "currentDataType L = FACE"
    and "inStream L = stream_at (sep0 @ show_corner c0 @ x0 # sep1 @ show_corner c1 @ x1 # sep2
                                 @ show_corner c2 @ x2 # r) pb"
    and "\<forall>y \<in> set sep0. isspace y" "\<forall>y \<in> set sep1. isspace y" "\<forall>y \<in> set sep2. isspace y"
    and "isspace x0" "isspace x1" "isspace x2"
    and "corner_fits c0" "corner_fits c1" "corner_fits c2"
  shows "step F L = Inr (L\<lparr>inStream := after_corner c2 x2 r,
                           tempGeom := (tempGeom L)\<lparr>faces := faces (tempGeom L)
                                                      @ [face_of c0 c1 c2]\<rparr>,
                           currentDataType := COMMENT\<rparr>)
       \<and> vertexIndex (face_of c0 c1 c2)
           = [int (position_of c0) - 1, int (position_of c1) - 1, int (position_of c2) - 1]
       \<and> (\<forall>k t. k < 3 \<and> texture_of ([c0, c1, c2] ! k) = Some t
                 \<longrightarrow> texCoordIndex (face_of c0 c1 c2) ! k = int t - 1)
       \<and> (\<forall>k n. k < 3 \<and> normal_of ([c0, c1, c2] ! k) = Some n
                 \<longrightarrow> normalIndex (face_of c0 c1 c2) ! k = int n - 1)
       \<and> (\<forall>temp this this1.
             expand_face F temp (face_of c0 c1 c2) this = Inr this1 \<longrightarrow>
             vertices this1 = vertices this
               @ concat (map (\<lambda>k. [vertices temp ! nat (3 * (vertexIndex (face_of c0 c1 c2) ! k)),
                                     vertices temp ! nat (3 * (vertexIndex (face_of c0 c1 c2) ! k) + 1),
                                     vertices temp ! nat (3 * (vertexIndex (face_of c0 c1 c2) ! k) + 2)])
                             [0, 1, 2]))"
proof -
  have 1: "step F L = Inr (L\<lparr>inStream := after_corner c2 x2 r,
                           tempGeom := (tempGeom L)\<lparr>faces := faces (tempGeom L)
                                                      @ [face_of c0 c1 c2]\<rparr>,
                           currentDataType := COMMENT\<rparr>)"
    by (rule step_FACE_show [OF assms])
  have 2: "vertexIndex (face_of c0 c1 c2)
           = [int (position_of c0) - 1, int (position_of c1) - 1, int (position_of c2) - 1]"
    by (simp add: face_of_def Let_def corner_vars_position)
  have 3: "texCoordIndex (face_of c0 c1 c2) ! k = int t - 1"
    if "k < 3" "texture_of ([c0, c1, c2] ! k) = Some t" for k t
    using upto_3 [OF that(1)] that(2)
    by (auto simp: face_of_def Let_def corner_vars_texture)
  have 4: "normalIndex (face_of c0 c1 c2) ! k = int n - 1"
    if "k < 3" "normal_of ([c0, c1, c2] ! k) = Some n" for k n
    using upto_3 [OF that(1)] that(2)
    by (auto simp: face_of_def Let_def corner_vars_normal)
  have 5: "vertices this1 = vertices this
               @ concat (map (\<lambda>k. [vertices temp ! nat (3 * (vertexIndex (face_of c0 c1 c2) ! k)),
                                     vertices temp ! nat (3 * (vertexIndex (face_of c0 c1 c2) ! k) + 1),
                                     vertices temp ! nat (3 * (vertexIndex (face_of c0 c1 c2) ! k) + 2)])
                             [0, 1, 2])"
    if "expand_face F temp (face_of c0 c1 c2) this = Inr this1" for temp this this1
    using expand_face_Inr [OF that]
    by (simp add: with_face_buffers face_positions_def pool_values_def)
  from 1 2 3 4 5 show ?thesis by blast
qed

theorem stored_indices_are_one_less_witness:
  "step symbolic face_line_example
     = Inr (face_line_example\<lparr>inStream := stream_at [] (Some (CHR 0x0A)),
                               tempGeom := tri_pools\<lparr>faces := [face_123]\<rparr>,
                               currentDataType := COMMENT\<rparr>)
   \<and> vertexIndex face_123 = [0, 1, 2]
   \<and> expand_face symbolic tri_pools face_123 empty_geometry
       = Inr (empty_geometry\<lparr>vertices :=
                map Lit [''0'', ''0'', ''0'', ''1'', ''0'', ''0'', ''0'', ''1'', ''0'']\<rparr>)"
proof -
  have f: "face_of (V 1) (V 2) (V 3) = face_123"
    by (simp add: face_of_def face_123_def)
  have l: "inStream face_line_example
             = stream_at ([] @ show_corner (V 1) @ CHR '' '' # [] @ show_corner (V 2) @ CHR '' ''
                          # [] @ show_corner (V 3) @ CHR 0x0A # []) (Some CHR '' '')"
    by (simp add: face_line_example_def show_nat.simps)
  have "step symbolic face_line_example
          = Inr (face_line_example\<lparr>inStream := after_corner (V 3) (CHR 0x0A) [],
                   tempGeom := (tempGeom face_line_example)
                     \<lparr>faces := faces (tempGeom face_line_example) @ [face_of (V 1) (V 2) (V 3)]\<rparr>,
                   currentDataType := COMMENT\<rparr>)
        \<and> vertexIndex (face_of (V 1) (V 2) (V 3))
            = [int (position_of (V 1)) - 1, int (position_of (V 2)) - 1,
               int (position_of (V 3)) - 1]"
    using stored_indices_are_one_less [OF _ l, of symbolic]
    by (simp add: face_line_example_def isspace_def INT_MAX_def del: One_nat_def)
  moreover have "expand_face symbolic tri_pools face_123 empty_geometry
       = Inr (empty_geometry\<lparr>vertices :=
                map Lit [''0'', ''0'', ''0'', ''1'', ''0'', ''0'', ''0'', ''1'', ''0'']\<rparr>)"
    by code_simp
  ultimately show ?thesis
    by (simp add: f after_corner_def face_line_example_def del: One_nat_def)
qed

lemma ws_skips:
  assumes "\<forall>y \<in> set pre. isspace y" and "\<not> isspace c"
  shows "ws (stream_at (pre @ c # r) pb)
           = stream_at (c # r) (if pre = [] then pb else Some (last pre))"
proof -
  have "takeWhile isspace (pre @ c # r) = pre"
    using assms by (simp add: takeWhile_append2)
  then show ?thesis
    using consume_stream_at [of pre "c # r" pb] by (simp add: ws_def)
qed

lemma step_NONE_f:
  assumes "currentDataType L = NONE"
    and "inStream L = stream_at (pre @ CHR ''f'' # b # r) pb"
    and "\<forall>y \<in> set pre. isspace y"
  shows "step F L = Inr (L\<lparr>inStream := stream_at r (Some b), currentDataType := FACE\<rparr>)"
proof -
  have "\<not> isspace (CHR ''f'')" by (simp add: isspace_def)
  from ws_skips [OF assms(3) this] assms(1,2) show ?thesis
    by (simp add: step_def step_NONE_def)
qed

lemma face_line_rest:
  assumes "currentDataType L = NONE"
    and "inStream L = stream_at (CHR ''f'' # b # sep0 @ show_corner c0 @ x0 # sep1
                                 @ show_corner c1 @ x1 # sep2 @ show_corner c2 @ x2 # xs
                                 @ CHR 0x0A # tail) pb"
    and "\<forall>y \<in> set sep0. isblank y" "\<forall>y \<in> set sep1. isblank y" "\<forall>y \<in> set sep2. isblank y"
    and "isblank x0" "isblank x1" "isblank x2"
    and "corner_fits c0" "corner_fits c1" "corner_fits c2"
    and "CHR 0x0A \<notin> set xs"
  shows "parse_loop F L
           = parse_loop F (L\<lparr>inStream := stream_at tail (Some (CHR 0x0A)),
                              tempGeom := (tempGeom L)\<lparr>faces := faces (tempGeom L)
                                                         @ [face_of c0 c1 c2]\<rparr>,
                              currentDataType := NONE\<rparr>)"
proof -
  let ?line = "sep0 @ show_corner c0 @ x0 # sep1 @ show_corner c1 @ x1 # sep2 @ show_corner c2
               @ x2 # (xs @ CHR 0x0A # tail)"
  let ?L1 = "L\<lparr>inStream := stream_at ?line (Some b), currentDataType := FACE\<rparr>"
  let ?g = "(tempGeom L)\<lparr>faces := faces (tempGeom L) @ [face_of c0 c1 c2]\<rparr>"
  let ?L2 = "?L1\<lparr>inStream := after_corner c2 x2 (xs @ CHR 0x0A # tail),
                  tempGeom := ?g, currentDataType := COMMENT\<rparr>"
  have s1: "step F L = Inr ?L1"
    using step_NONE_f [of L "[]" b ?line pb F] assms(1,2) by simp
  have s2: "step F ?L1 = Inr ?L2"
    using step_FACE_show [of ?L1 sep0 c0 x0 sep1 c1 x1 sep2 c2 x2 "xs @ CHR 0x0A # tail"
            "Some b" F] assms(3-11)
    by (simp add: isblank_space)
  have nl: "CHR 0x0A \<notin> set (corner_left c2 x2 @ xs)"
    using assms(8,12) isblank_not_newline by (cases c2) auto
  have s3: "parse_loop F ?L2
              = parse_loop F (?L2\<lparr>inStream := stream_at tail (Some (CHR 0x0A)),
                                   currentDataType := NONE\<rparr>)"
    by (rule comment_skips_line
          [where xs = "corner_left c2 x2 @ xs" and pb = "corner_pback c2 x2"])
       (simp_all add: after_corner_def nl [simplified])
  have "parse_loop F L = parse_loop F ?L1"
    using assms(1,2) by (subst parse_loop.simps) (simp add: s1)
  also have "\<dots> = parse_loop F ?L2"
    by (subst parse_loop.simps) (simp add: s2)
  also note s3
  also have "?L2\<lparr>inStream := stream_at tail (Some (CHR 0x0A)), currentDataType := NONE\<rparr>
               = L\<lparr>inStream := stream_at tail (Some (CHR 0x0A)), tempGeom := ?g,
                    currentDataType := NONE\<rparr>"
    by (cases L) simp
  finally show ?thesis .
qed

text \<open>
  A face line of three position indices and nothing more is another matter: the
  \<^verbatim>\<open>get()\<close> after the third index takes the newline, and \<^verbatim>\<open>case COMMENT\<close> then takes
  the line that follows.
\<close>

lemma bare_face_line_takes_next_line:
  "parse_loop symbolic (initial (''f 1 2 3'' @ [CHR 0x0A] @ ''v 7 8 9'' @ [CHR 0x0A]))
     = Some (Inr \<lparr>currentDataType = NONE, inStream = at_end,
                  tempGeom = empty_geometry\<lparr>faces := [face_123]\<rparr>, cout = []\<rparr>)"
  by code_simp

text \<open>
  C8. A face line with more than three corners: after the \<^verbatim>\<open>f\<close>, three corners are read
  into the face that is stored, and everything after them up to the end of the line is taken
  by \<^verbatim>\<open>case COMMENT\<close>. The loop goes on from the start of the next line in the state it
  would be in had it stored that one face there, and so it goes on as it does from the same
  line with nothing between the blank after the third corner and the end of the line.
  (Corners are separated by spaces and tabs.)
\<close>

theorem extra_corners_are_dropped:
  assumes "currentDataType L = NONE"
    and "inStream L = stream_at (CHR ''f'' # b # sep0 @ show_corner c0 @ x0 # sep1
                                 @ show_corner c1 @ x1 # sep2 @ show_corner c2 @ x2 # sep3
                                 @ show_corner c3 @ extra @ CHR 0x0A # tail) pb"
    and "\<forall>y \<in> set sep0. isblank y" "\<forall>y \<in> set sep1. isblank y" "\<forall>y \<in> set sep2. isblank y"
        "\<forall>y \<in> set sep3. isblank y"
    and "isblank x0" "isblank x1" "isblank x2"
    and "corner_fits c0" "corner_fits c1" "corner_fits c2"
    and "CHR 0x0A \<notin> set extra"
  shows "parse_loop F L
           = parse_loop F (L\<lparr>inStream := stream_at tail (Some (CHR 0x0A)),
                              tempGeom := (tempGeom L)\<lparr>faces := faces (tempGeom L)
                                                         @ [face_of c0 c1 c2]\<rparr>,
                              currentDataType := NONE\<rparr>)
       \<and> parse_loop F L
           = parse_loop F (L\<lparr>inStream :=
                                stream_at (CHR ''f'' # b # sep0 @ show_corner c0 @ x0 # sep1
                                           @ show_corner c1 @ x1 # sep2 @ show_corner c2 @ x2
                                           # CHR 0x0A # tail) pb\<rparr>)"
proof -
  let ?short = "L\<lparr>inStream :=
                    stream_at (CHR ''f'' # b # sep0 @ show_corner c0 @ x0 # sep1
                               @ show_corner c1 @ x1 # sep2 @ show_corner c2 @ x2
                               # CHR 0x0A # tail) pb\<rparr>"
  let ?next = "L\<lparr>inStream := stream_at tail (Some (CHR 0x0A)),
                  tempGeom := (tempGeom L)\<lparr>faces := faces (tempGeom L)
                                             @ [face_of c0 c1 c2]\<rparr>,
                  currentDataType := NONE\<rparr>"
  have nl: "CHR 0x0A \<notin> set (sep3 @ show_corner c3 @ extra)"
    using assms(6,13) isblank_not_newline show_corner_no_newline [of c3] by auto
  have long: "parse_loop F L = parse_loop F ?next"
    by (rule face_line_rest [OF assms(1) _ assms(3) assms(4) assms(5) assms(7) assms(8)
                               assms(9) assms(10) assms(11) assms(12) nl])
       (simp add: assms(2))
  have "parse_loop F ?short
          = parse_loop F (?short\<lparr>inStream := stream_at tail (Some (CHR 0x0A)),
                tempGeom := (tempGeom ?short)\<lparr>faces := faces (tempGeom ?short)
                                                  @ [face_of c0 c1 c2]\<rparr>,
                currentDataType := NONE\<rparr>)"
    by (rule face_line_rest [OF _ _ assms(3) assms(4) assms(5) assms(7) assms(8)
                               assms(9) assms(10) assms(11) assms(12), where xs = "[]"])
       (simp_all add: assms(1))
  also have "?short\<lparr>inStream := stream_at tail (Some (CHR 0x0A)),
                tempGeom := (tempGeom ?short)\<lparr>faces := faces (tempGeom ?short)
                                                  @ [face_of c0 c1 c2]\<rparr>,
                currentDataType := NONE\<rparr> = ?next"
    by (cases L) simp
  finally show ?thesis using long by simp
qed

theorem extra_corners_are_dropped_witness:
  "parse_loop symbolic (initial (''f 1 2 3 4 5'' @ [CHR 0x0A] @ ''v 7 8 9'' @ [CHR 0x0A]))
     = parse_loop symbolic
         \<lparr>currentDataType = NONE,
          inStream = stream_at (''v 7 8 9'' @ [CHR 0x0A]) (Some (CHR 0x0A)),
          tempGeom = empty_geometry\<lparr>faces := [face_123]\<rparr>, cout = []\<rparr>
   \<and> parse_loop symbolic (initial (''f 1 2 3 4 5'' @ [CHR 0x0A] @ ''v 7 8 9'' @ [CHR 0x0A]))
     = Some (Inr \<lparr>currentDataType = NONE, inStream = at_end,
                  tempGeom = empty_geometry\<lparr>vertices := map Lit [''7'', ''8'', ''9''],
                                            faces := [face_123]\<rparr>,
                  cout = []\<rparr>)"
proof -
  let ?L = "initial (''f 1 2 3 4 5'' @ [CHR 0x0A] @ ''v 7 8 9'' @ [CHR 0x0A]) :: fexpr loader"
  have f: "face_of (V 1) (V 2) (V 3) = face_123"
    by (simp add: face_of_def face_123_def)
  have l: "inStream ?L
             = stream_at (CHR ''f'' # CHR '' '' # [] @ show_corner (V 1) @ CHR '' '' # []
                          @ show_corner (V 2) @ CHR '' '' # [] @ show_corner (V 3) @ CHR '' ''
                          # [] @ show_corner (V 4) @ '' 5'' @ CHR 0x0A
                          # (''v 7 8 9'' @ [CHR 0x0A])) None"
    by (simp add: initial_def opened_def stream_at_def show_nat.simps)
  have "parse_loop symbolic ?L
          = parse_loop symbolic
              (?L\<lparr>inStream := stream_at (''v 7 8 9'' @ [CHR 0x0A]) (Some (CHR 0x0A)),
                   tempGeom := (tempGeom ?L)\<lparr>faces := faces (tempGeom ?L)
                                                @ [face_of (V 1) (V 2) (V 3)]\<rparr>,
                   currentDataType := NONE\<rparr>)"
    by (rule extra_corners_are_dropped [OF _ l, THEN conjunct1])
       (simp_all add: initial_def isblank_def INT_MAX_def)
  moreover have "parse_loop symbolic ?L
     = Some (Inr \<lparr>currentDataType = NONE, inStream = at_end,
                  tempGeom = empty_geometry\<lparr>vertices := map Lit [''7'', ''8'', ''9''],
                                            faces := [face_123]\<rparr>,
                  cout = []\<rparr>)"
    by code_simp
  ultimately show ?thesis
    by (simp add: f initial_def empty_geometry_def del: One_nat_def)
qed

subsection \<open>A failed extraction\<close>

lemma stuck_step: "stuck L \<Longrightarrow> \<exists>L1. step F L = Inr L1 \<and> stuck L1"
  by (simp add: stuck_def step_def step_COMMENT_def get_def good_def)

lemma stuck_never_returns:
  assumes "parse_loop F L = Some r"
  shows "\<not> stuck L"
proof (rule parse_loop.raw_induct [where P = "\<lambda>F L r. \<not> stuck L", OF _ assms])
  fix f :: "'a float_ops \<Rightarrow> 'a loader \<Rightarrow> (error + 'a loader) option" and F L r
  assume IH: "\<And>F L r. f F L = Some r \<Longrightarrow> \<not> stuck L"
    and body: "(if eofbit (inStream L) then Some (Inr L)
                else case step F L of Inl e \<Rightarrow> Some (Inl e) | Inr L1 \<Rightarrow> f F L1) = Some r"
  show "\<not> stuck L"
  proof
    assume s: "stuck L"
    then obtain L1 where L1: "step F L = Inr L1" "stuck L1"
      using stuck_step by blast
    from s have "\<not> eofbit (inStream L)" by (simp add: stuck_def)
    with body L1(1) have "f F L1 = Some r" by simp
    from IH [OF this] L1(2) show False by simp
  qed
qed

lemma stuck_loops: "stuck L \<Longrightarrow> parse_loop F L = None"
  using stuck_never_returns [of F L] by (cases "parse_loop F L") auto

lemma after_steps_loop: "after_steps n F L = Some L1 \<Longrightarrow> parse_loop F L = parse_loop F L1"
proof (induction n arbitrary: L)
  case 0
  then show ?case by simp
next
  case (Suc n)
  then show ?case
    by (subst parse_loop.simps) (auto split: if_splits sum.splits)
qed

lemma usemtl_line_never_ends:
  "parse_loop symbolic (initial (''usemtl foo'' @ [CHR 0x0A])) = None"
proof -
  let ?L = "initial (''usemtl foo'' @ [CHR 0x0A]) :: fexpr loader"
  have a: "after_steps 5 symbolic ?L = Some (the (after_steps 5 symbolic ?L))"
    by code_simp
  have "stuck (the (after_steps 5 symbolic ?L))"
    by code_simp
  then show ?thesis
    using after_steps_loop [OF a] stuck_loops by metis
qed

subsection \<open>Two lines the loop does not treat as the specification says\<close>

text \<open>
  C1. On the line \<^verbatim>\<open>f 1/2/3 4 5\<close> the second and the third corner have no
  texture-coordinate and no normal index. The loop stores for them the indices of the first
  corner, 1 and 2, and not -1: \<^verbatim>\<open>texCoordIndex\<close> and \<^verbatim>\<open>normalIndex\<close> are set to 0 once,
  before the corner loop, and keep the value the first corner gave them.
\<close>

theorem omitted_slot_keeps_earlier_value:
  "parse_loop symbolic (initial (''f 1/2/3 4 5'' @ [CHR 0x0A]))
     = Some (Inr \<lparr>currentDataType = COMMENT, inStream = at_end,
                  tempGeom = empty_geometry
                    \<lparr>faces := [\<lparr>vertexIndex = [0, 3, 4], texCoordIndex = [1, 1, 1],
                                normalIndex = [2, 2, 2]\<rparr>]\<rparr>,
                  cout = []\<rparr>)"
  by code_simp

text \<open>
  C2. A line that starts with a character other than \<^verbatim>\<open>v\<close>, \<^verbatim>\<open>f\<close> and \<^verbatim>\<open>#\<close>: the
  loop reports the character and the one after it and stays in \<^verbatim>\<open>case NONE\<close>, so it reads
  the rest of the line two characters at a time as if each pair started a line. The line
  \<^verbatim>\<open>abcd\<close> is reported twice, and the line \<^verbatim>\<open>x f 1 2 3\<close> stores a face. (On the
  line \<^verbatim>\<open>usemtl foo\<close> the pair \<^verbatim>\<open>fo\<close> starts a face whose first index fails to
  parse, and the loop never ends: \<open>usemtl_line_never_ends\<close>.)
\<close>

theorem unexpected_line_is_not_skipped:
  "parse_loop symbolic (initial (''abcd'' @ [CHR 0x0A]))
     = Some (Inr \<lparr>currentDataType = NONE, inStream = at_end, tempGeom = empty_geometry,
                  cout = [ParseError (Some CHR ''a'') (Some CHR ''b''),
                          ParseError (Some CHR ''c'') (Some CHR ''d'')]\<rparr>)
   \<and> parse_loop symbolic (initial (''x f 1 2 3'' @ [CHR 0x0A]))
     = Some (Inr \<lparr>currentDataType = COMMENT, inStream = at_end,
                  tempGeom = empty_geometry\<lparr>faces := [face_123]\<rparr>,
                  cout = [ParseError (Some CHR ''x'') (Some CHR '' '')]\<rparr>)"
  by code_simp

end
